theory Spec2Isabelle
  imports Main
begin

section \<open>JSON values and the Python operations applied to them\<close>

text \<open>
  The server of \<^verbatim>\<open>clickup_mcp_server.py\<close> handles decoded JSON only: request
  parameters, tool arguments and the documents of the remote API. A Python \<^verbatim>\<open>dict\<close>
  keeps its insertion order, so an object is an association list; its keys are strings,
  as JSON has no other. A \<^typ>\<open>char\<close> stands for a code point below 256. JSON numbers with
  a fraction are left out of the model.
\<close>

datatype json =
    JNull
  | JBool bool
  | JInt int
  | JStr string
  | JList "json list"
  | JObj "(string \<times> json) list"

text \<open>
  Every exception that the modelled code can raise derives from \<^verbatim>\<open>Exception\<close>. The
  payload is what \<^verbatim>\<open>str(e)\<close> is built from: the message, or the missing key of
  a \<^verbatim>\<open>KeyError\<close>. \<open>RequestException\<close> stands for whatever the HTTP library raises
  (connection failure, \<^verbatim>\<open>raise_for_status\<close>, an undecodable body).
\<close>

datatype exn =
    ValueError string
  | KeyError json
  | IndexError string
  | TypeError string
  | AttributeError string
  | RequestException string

subsection \<open>Text of values: \<^verbatim>\<open>str\<close>, \<^verbatim>\<open>repr\<close>, \<^verbatim>\<open>str.lower\<close>\<close>

definition digit_char :: "nat \<Rightarrow> char" where
  "digit_char d = ''0123456789abcdef'' ! (d mod 16)"

function show_nat :: "nat \<Rightarrow> string" where
  "show_nat n = (if n < 10 then [digit_char n] else show_nat (n div 10) @ [digit_char (n mod 10)])"
  by pat_completeness auto
termination
  by (relation "measure (\<lambda>n. n)") auto

definition show_int :: "int \<Rightarrow> string" where
  "show_int i = (if i < 0 then CHR ''-'' # show_nat (nat (- i)) else show_nat (nat i))"

definition hex2 :: "nat \<Rightarrow> string" where
  "hex2 n = [digit_char (n div 16), digit_char n]"

fun join :: "string \<Rightarrow> string list \<Rightarrow> string" where
  "join sep [] = []"
| "join sep [x] = x"
| "join sep (x # y # ys) = x @ sep @ join sep (y # ys)"

definition printable :: "char \<Rightarrow> bool" where
  "printable c = (let n = (of_char c :: nat) in
     \<not> (n < 32 \<or> (127 \<le> n \<and> n \<le> 160) \<or> n = 173))"

definition repr_char :: "char \<Rightarrow> char \<Rightarrow> string" where
  "repr_char quote c =
     (if c = quote \<or> c = CHR 0x5C then [CHR 0x5C, c]
      else if c = CHR 0x09 then [CHR 0x5C, CHR ''t'']
      else if c = CHR 0x0A then [CHR 0x5C, CHR ''n'']
      else if c = CHR 0x0D then [CHR 0x5C, CHR ''r'']
      else if printable c then [c]
      else [CHR 0x5C, CHR ''x''] @ hex2 (of_char c))"

definition repr_str :: "string \<Rightarrow> string" where
  "repr_str s =
     (let quote = (if CHR 0x27 \<in> set s \<and> CHR 0x22 \<notin> set s then CHR 0x22 else CHR 0x27)
      in [quote] @ concat (map (repr_char quote) s) @ [quote])"

primrec py_repr :: "json \<Rightarrow> string" where
  "py_repr JNull = ''None''"
| "py_repr (JBool b) = (if b then ''True'' else ''False'')"
| "py_repr (JInt i) = show_int i"
| "py_repr (JStr s) = repr_str s"
| "py_repr (JList xs) = ''['' @ join '', '' (map py_repr xs) @ '']''"
| "py_repr (JObj kvs) =
     ''{'' @ join '', '' (map (\<lambda>(k, r). repr_str k @ '': '' @ r) (map (map_prod (\<lambda>k. k) py_repr) kvs)) @ ''}''"

definition py_str :: "json \<Rightarrow> string" where
  "py_str v = (case v of JStr s \<Rightarrow> s | _ \<Rightarrow> py_repr v)"

definition str_exn :: "exn \<Rightarrow> string" where
  "str_exn e = (case e of
      ValueError m \<Rightarrow> m
    | KeyError k \<Rightarrow> py_repr k
    | IndexError m \<Rightarrow> m
    | TypeError m \<Rightarrow> m
    | AttributeError m \<Rightarrow> m
    | RequestException m \<Rightarrow> m)"

definition lower_char :: "char \<Rightarrow> char" where
  "lower_char c = (let n = (of_char c :: nat) in
     if (65 \<le> n \<and> n \<le> 90) \<or> (192 \<le> n \<and> n \<le> 222 \<and> n \<noteq> 215) then char_of (n + 32) else c)"

definition lower :: "string \<Rightarrow> string" where
  "lower s = map lower_char s"

definition type_name :: "json \<Rightarrow> string" where
  "type_name v = (case v of
      JNull \<Rightarrow> ''NoneType'' | JBool _ \<Rightarrow> ''bool'' | JInt _ \<Rightarrow> ''int''
    | JStr _ \<Rightarrow> ''str'' | JList _ \<Rightarrow> ''list'' | JObj _ \<Rightarrow> ''dict'')"

definition no_attribute :: "json \<Rightarrow> string \<Rightarrow> exn" where
  "no_attribute v a =
     AttributeError ([CHR 0x27] @ type_name v @ [CHR 0x27] @ '' object has no attribute '' @ [CHR 0x27] @ a @ [CHR 0x27])"

definition not_subscriptable :: "json \<Rightarrow> exn" where
  "not_subscriptable v = TypeError ([CHR 0x27] @ type_name v @ [CHR 0x27] @ '' object is not subscriptable'')"

definition not_iterable :: "json \<Rightarrow> exn" where
  "not_iterable v = TypeError ([CHR 0x27] @ type_name v @ [CHR 0x27] @ '' object is not iterable'')"

subsection \<open>Subscripts, attributes, iteration, membership\<close>

definition ebind :: "exn + 'a \<Rightarrow> ('a \<Rightarrow> exn + 'b) \<Rightarrow> exn + 'b" where
  "ebind r f = (case r of Inl e \<Rightarrow> Inl e | Inr x \<Rightarrow> f x)"

text \<open>\<^verbatim>\<open>v['k']\<close> for a string key.\<close>

definition getitem_key :: "json \<Rightarrow> string \<Rightarrow> exn + json" where
  "getitem_key v k = (case v of
      JObj kvs \<Rightarrow> (case map_of kvs k of None \<Rightarrow> Inl (KeyError (JStr k)) | Some x \<Rightarrow> Inr x)
    | JList _ \<Rightarrow> Inl (TypeError ''list indices must be integers or slices, not str'')
    | JStr _ \<Rightarrow> Inl (TypeError (''string indices must be integers, not '' @ [CHR 0x27] @ ''str'' @ [CHR 0x27]))
    | _ \<Rightarrow> Inl (not_subscriptable v))"

text \<open>\<^verbatim>\<open>v[0]\<close>.\<close>

definition getitem_0 :: "json \<Rightarrow> exn + json" where
  "getitem_0 v = (case v of
      JList xs \<Rightarrow> (case xs of [] \<Rightarrow> Inl (IndexError ''list index out of range'') | x # _ \<Rightarrow> Inr x)
    | JStr s \<Rightarrow> (case s of [] \<Rightarrow> Inl (IndexError ''string index out of range'') | c # _ \<Rightarrow> Inr (JStr [c]))
    | JObj _ \<Rightarrow> Inl (KeyError (JInt 0))
    | _ \<Rightarrow> Inl (not_subscriptable v))"

text \<open>\<^verbatim>\<open>v.get('k', default)\<close>; the one-argument form has the default \<^verbatim>\<open>None\<close>.\<close>

definition py_get :: "json \<Rightarrow> string \<Rightarrow> json \<Rightarrow> exn + json" where
  "py_get v k dflt = (case v of
      JObj kvs \<Rightarrow> (case map_of kvs k of None \<Rightarrow> Inr dflt | Some x \<Rightarrow> Inr x)
    | _ \<Rightarrow> Inl (no_attribute v ''get''))"

text \<open>\<^verbatim>\<open>v.pop('k')\<close>: the value removed and the object left behind.\<close>

definition py_pop :: "json \<Rightarrow> string \<Rightarrow> exn + (json \<times> json)" where
  "py_pop v k = (case v of
      JObj kvs \<Rightarrow> (case map_of kvs k of
          None \<Rightarrow> Inl (KeyError (JStr k))
        | Some x \<Rightarrow> Inr (x, JObj (filter (\<lambda>kv. fst kv \<noteq> k) kvs)))
    | JList _ \<Rightarrow> Inl (TypeError ([CHR 0x27] @ ''str'' @ [CHR 0x27] @ '' object cannot be interpreted as an integer''))
    | _ \<Rightarrow> Inl (no_attribute v ''pop''))"

text \<open>\<^verbatim>\<open>v.lower()\<close>.\<close>

definition py_lower :: "json \<Rightarrow> exn + string" where
  "py_lower v = (case v of JStr s \<Rightarrow> Inr (lower s) | _ \<Rightarrow> Inl (no_attribute v ''lower''))"

text \<open>The truth value of \<^verbatim>\<open>if v:\<close>.\<close>

definition truthy :: "json \<Rightarrow> bool" where
  "truthy v = (case v of
      JNull \<Rightarrow> False | JBool b \<Rightarrow> b | JInt i \<Rightarrow> i \<noteq> 0
    | JStr s \<Rightarrow> s \<noteq> [] | JList xs \<Rightarrow> xs \<noteq> [] | JObj kvs \<Rightarrow> kvs \<noteq> [])"

text \<open>The items that \<^verbatim>\<open>for x in v\<close> and \<^verbatim>\<open>list.extend(v)\<close> run through.\<close>

definition py_iter :: "json \<Rightarrow> exn + json list" where
  "py_iter v = (case v of
      JList xs \<Rightarrow> Inr xs
    | JStr s \<Rightarrow> Inr (map (\<lambda>c. JStr [c]) s)
    | JObj kvs \<Rightarrow> Inr (map (\<lambda>kv. JStr (fst kv)) kvs)
    | _ \<Rightarrow> Inl (not_iterable v))"

fun starts_with :: "string \<Rightarrow> string \<Rightarrow> bool" where
  "starts_with s [] = True"
| "starts_with [] (p # ps) = False"
| "starts_with (c # cs) (p # ps) = (c = p \<and> starts_with cs ps)"

text \<open>\<^verbatim>\<open>needle in hay\<close> on two strings: a contiguous occurrence.\<close>

fun str_contains :: "string \<Rightarrow> string \<Rightarrow> bool" where
  "str_contains [] needle = (needle = [])"
| "str_contains (c # cs) needle = (starts_with (c # cs) needle \<or> str_contains cs needle)"

text \<open>\<^verbatim>\<open>'k' in v\<close> for a string \<open>k\<close>.\<close>

definition py_contains :: "json \<Rightarrow> string \<Rightarrow> exn + bool" where
  "py_contains v k = (case v of
      JObj kvs \<Rightarrow> Inr (map_of kvs k \<noteq> None)
    | JList xs \<Rightarrow> Inr (JStr k \<in> set xs)
    | JStr s \<Rightarrow> Inr (str_contains s k)
    | _ \<Rightarrow> Inl (TypeError (''argument of type '' @ [CHR 0x27] @ type_name v @ [CHR 0x27] @ '' is not iterable'')))"

subsection \<open>\<^verbatim>\<open>json.dumps(v, indent=2)\<close>\<close>

definition json_escape :: "char \<Rightarrow> string" where
  "json_escape c =
     (if c = CHR 0x22 then [CHR 0x5C, CHR 0x22]
      else if c = CHR 0x5C then [CHR 0x5C, CHR 0x5C]
      else if c = CHR 0x0A then [CHR 0x5C, CHR ''n'']
      else if c = CHR 0x0D then [CHR 0x5C, CHR ''r'']
      else if c = CHR 0x09 then [CHR 0x5C, CHR ''t'']
      else if c = CHR 0x08 then [CHR 0x5C, CHR ''b'']
      else if c = CHR 0x0C then [CHR 0x5C, CHR ''f'']
      else if (of_char c :: nat) < 32 \<or> 126 < (of_char c :: nat)
        then [CHR 0x5C, CHR ''u'', CHR ''0'', CHR ''0''] @ hex2 (of_char c)
      else [c])"

definition json_string :: "string \<Rightarrow> string" where
  "json_string s = [CHR 0x22] @ concat (map json_escape s) @ [CHR 0x22]"

definition newline_indent :: "nat \<Rightarrow> string" where
  "newline_indent lvl = CHR 0x0A # replicate (2 * lvl) CHR '' ''"

primrec dumps_at :: "json \<Rightarrow> nat \<Rightarrow> string" where
  "dumps_at JNull lvl = ''null''"
| "dumps_at (JBool b) lvl = (if b then ''true'' else ''false'')"
| "dumps_at (JInt i) lvl = show_int i"
| "dumps_at (JStr s) lvl = json_string s"
| "dumps_at (JList xs) lvl =
     (case map (\<lambda>f. f (Suc lvl)) (map dumps_at xs) of
        [] \<Rightarrow> ''[]''
      | items \<Rightarrow> ''['' @ newline_indent (Suc lvl) @ join ('','' @ newline_indent (Suc lvl)) items
                 @ newline_indent lvl @ '']'')"
| "dumps_at (JObj kvs) lvl =
     (case map (\<lambda>(k, f). json_string k @ '': '' @ f (Suc lvl)) (map (map_prod (\<lambda>k. k) dumps_at) kvs) of
        [] \<Rightarrow> ''{}''
      | items \<Rightarrow> ''{'' @ newline_indent (Suc lvl) @ join ('','' @ newline_indent (Suc lvl)) items
                 @ newline_indent lvl @ ''}'')"

definition json_dumps :: "json \<Rightarrow> string" where
  "json_dumps v = dumps_at v 0"

section \<open>The remote API, the object store and the REST client\<close>

text \<open>
  \<^verbatim>\<open>ClickUpAPI\<close> sends one HTTP request per call and returns the decoded body, or
  raises. The remote service is a parameter of the model: its answer may depend on the
  request and on every exchange that came before, so the theorems hold for every
  behaviour of the service. The exchanges are recorded in \<open>sent\<close>, oldest first.

  Tool arguments are passed by reference, and \<^verbatim>\<open>update_task\<close> changes the object it is
  given. Such objects therefore live in a store, \<open>heap\<close>, at an address; \<open>brk\<close> is the
  next free address.
\<close>

datatype request = GET string | POST string json | PUT string json

type_synonym exchange = "request \<times> (exn + json)"

type_synonym remote = "exchange list \<Rightarrow> request \<Rightarrow> exn + json"

record world =
  sent :: "exchange list"
  heap :: "nat \<Rightarrow> json"
  brk :: nat

type_synonym 'a action = "world \<Rightarrow> (exn + 'a) \<times> world"

definition ret :: "'a \<Rightarrow> 'a action" where
  "ret x st = (Inr x, st)"

definition raise :: "exn \<Rightarrow> 'a action" where
  "raise e st = (Inl e, st)"

definition lift :: "exn + 'a \<Rightarrow> 'a action" where
  "lift r st = (r, st)"

definition mbind :: "'a action \<Rightarrow> ('a \<Rightarrow> 'b action) \<Rightarrow> 'b action" where
  "mbind m f st = (case m st of (Inl e, st') \<Rightarrow> (Inl e, st') | (Inr x, st') \<Rightarrow> f x st')"

definition deref :: "nat \<Rightarrow> json action" where
  "deref a st = (Inr (heap st a), st)"

definition store :: "nat \<Rightarrow> json \<Rightarrow> unit action" where
  "store a v st = (Inr (), st\<lparr>heap := (heap st)(a := v)\<rparr>)"

definition alloc :: "json \<Rightarrow> nat action" where
  "alloc v st = (Inr (brk st), st\<lparr>heap := (heap st)(brk st := v), brk := Suc (brk st)\<rparr>)"

text \<open>A \<^verbatim>\<open>for\<close> loop over items, threading what the body updates; a raise ends it.\<close>

fun for_each :: "('a \<Rightarrow> 'b \<Rightarrow> 'b action) \<Rightarrow> 'a list \<Rightarrow> 'b \<Rightarrow> 'b action" where
  "for_each body [] acc st = (Inr acc, st)"
| "for_each body (x # xs) acc st =
     (case body x acc st of
        (Inl e, st') \<Rightarrow> (Inl e, st')
      | (Inr acc', st') \<Rightarrow> for_each body xs acc' st')"

definition base_url :: string where
  "base_url = ''https://api.clickup.com/api/v2''"

definition http :: "remote \<Rightarrow> request \<Rightarrow> json action" where
  "http rm rq st = (let rs = rm (sent st) rq in (rs, st\<lparr>sent := sent st @ [(rq, rs)]\<rparr>))"

definition api_get :: "remote \<Rightarrow> string \<Rightarrow> json action" where
  "api_get rm endpoint = http rm (GET (base_url @ ''/'' @ endpoint))"

definition api_post :: "remote \<Rightarrow> string \<Rightarrow> json \<Rightarrow> json action" where
  "api_post rm endpoint data = http rm (POST (base_url @ ''/'' @ endpoint) data)"

definition api_put :: "remote \<Rightarrow> string \<Rightarrow> json \<Rightarrow> json action" where
  "api_put rm endpoint data = http rm (PUT (base_url @ ''/'' @ endpoint) data)"

section \<open>The tools of \<^verbatim>\<open>ClickUpMCPTools\<close>\<close>

text \<open>\<^verbatim>\<open>teams['teams'][0]\<close> and \<^verbatim>\<open>teams['teams'][0]['id']\<close>.\<close>

definition first_team :: "json \<Rightarrow> exn + json" where
  "first_team teams = ebind (getitem_key teams ''teams'') getitem_0"

definition first_team_id :: "json \<Rightarrow> exn + json" where
  "first_team_id teams = ebind (first_team teams) (\<lambda>t. getitem_key t ''id'')"

text \<open>\<^verbatim>\<open>query.lower() in item['name'].lower()\<close>, evaluated left to right.\<close>

definition name_matches :: "json \<Rightarrow> json \<Rightarrow> exn + bool" where
  "name_matches query item =
     ebind (py_lower query) (\<lambda>q.
     ebind (getitem_key item ''name'') (\<lambda>n.
     ebind (py_lower n) (\<lambda>nl. Inr (str_contains nl q))))"

text \<open>
  \<^verbatim>\<open>search_workspace\<close>. The pair threaded through the loops is
  \<^verbatim>\<open>(results['tasks'], results['lists'])\<close>.
\<close>

definition search_task :: "json \<Rightarrow> json \<Rightarrow> json list \<times> json list \<Rightarrow> (json list \<times> json list) action" where
  "search_task query task res =
     mbind (lift (name_matches query task)) (\<lambda>hit.
     ret (if hit then (fst res @ [task], snd res) else res))"

definition search_list :: "remote \<Rightarrow> json \<Rightarrow> json \<Rightarrow> json list \<times> json list \<Rightarrow> (json list \<times> json list) action" where
  "search_list rm query lst res =
     mbind (lift (name_matches query lst)) (\<lambda>hit.
     mbind (lift (getitem_key lst ''id'')) (\<lambda>lid.
     mbind (api_get rm (''list/'' @ py_str lid @ ''/task?archived=false'')) (\<lambda>tasks.
     mbind (lift (ebind (getitem_key tasks ''tasks'') py_iter)) (\<lambda>items.
     for_each (search_task query) items (if hit then (fst res, snd res @ [lst]) else res)))))"

definition search_space :: "remote \<Rightarrow> json \<Rightarrow> json \<Rightarrow> json list \<times> json list \<Rightarrow> (json list \<times> json list) action" where
  "search_space rm query space res =
     mbind (lift (getitem_key space ''id'')) (\<lambda>sid.
     mbind (api_get rm (''space/'' @ py_str sid @ ''/list?archived=false'')) (\<lambda>lists.
     mbind (lift (ebind (getitem_key lists ''lists'') py_iter)) (\<lambda>items.
     for_each (search_list rm query) items res)))"

definition search_workspace :: "remote \<Rightarrow> json \<Rightarrow> json action" where
  "search_workspace rm query =
     mbind (api_get rm ''team'') (\<lambda>teams.
     mbind (lift (first_team_id teams)) (\<lambda>team_id.
     mbind (api_get rm (''team/'' @ py_str team_id @ ''/space?archived=false'')) (\<lambda>spaces.
     mbind (lift (getitem_key spaces ''spaces'')) (\<lambda>all_spaces.
     mbind (lift (py_iter all_spaces)) (\<lambda>items.
     mbind (for_each (search_space rm query) items ([], [])) (\<lambda>res.
     ret (JObj [(''tasks'', JList (fst res)), (''lists'', JList (snd res)), (''spaces'', all_spaces)])))))))"

text \<open>\<^verbatim>\<open>get_workspace_hierarchy\<close>; the list threaded through the loop is \<^verbatim>\<open>hierarchy['spaces']\<close>.\<close>

definition hierarchy_space :: "remote \<Rightarrow> json \<Rightarrow> json list \<Rightarrow> (json list) action" where
  "hierarchy_space rm space acc =
     mbind (lift (getitem_key space ''id'')) (\<lambda>sid.
     mbind (lift (getitem_key space ''name'')) (\<lambda>sname.
     mbind (api_get rm (''space/'' @ py_str sid @ ''/list?archived=false'')) (\<lambda>lists.
     mbind (lift (getitem_key lists ''lists'')) (\<lambda>ls.
     ret (acc @ [JObj [(''id'', sid), (''name'', sname), (''lists'', ls)]])))))"

definition get_workspace_hierarchy :: "remote \<Rightarrow> json action" where
  "get_workspace_hierarchy rm =
     mbind (api_get rm ''team'') (\<lambda>teams.
     mbind (lift (first_team_id teams)) (\<lambda>team_id.
     mbind (api_get rm (''team/'' @ py_str team_id @ ''/space?archived=false'')) (\<lambda>spaces.
     mbind (lift (first_team teams)) (\<lambda>workspace.
     mbind (lift (ebind (getitem_key spaces ''spaces'') py_iter)) (\<lambda>items.
     mbind (for_each (hierarchy_space rm) items []) (\<lambda>acc.
     ret (JObj [(''workspace'', workspace), (''spaces'', JList acc)])))))))"

text \<open>\<^verbatim>\<open>get_workspace_tasks\<close>; \<open>filters\<close> is the address of the argument object.\<close>

definition tasks_of_list :: "remote \<Rightarrow> json \<Rightarrow> json list \<Rightarrow> (json list) action" where
  "tasks_of_list rm lst all_tasks =
     mbind (lift (getitem_key lst ''id'')) (\<lambda>lid.
     mbind (api_get rm (''list/'' @ py_str lid @ ''/task?archived=false'')) (\<lambda>tasks.
     mbind (lift (ebind (getitem_key tasks ''tasks'') py_iter)) (\<lambda>items.
     ret (all_tasks @ items))))"

definition tasks_of_space :: "remote \<Rightarrow> json \<Rightarrow> json list \<Rightarrow> (json list) action" where
  "tasks_of_space rm space all_tasks =
     mbind (lift (getitem_key space ''id'')) (\<lambda>sid.
     mbind (api_get rm (''space/'' @ py_str sid @ ''/list?archived=false'')) (\<lambda>lists.
     mbind (lift (ebind (getitem_key lists ''lists'') py_iter)) (\<lambda>items.
     for_each (tasks_of_list rm) items all_tasks)))"

definition get_workspace_tasks :: "remote \<Rightarrow> nat \<Rightarrow> json action" where
  "get_workspace_tasks rm filters =
     mbind (deref filters) (\<lambda>f.
     mbind (lift (py_get f ''list_id'' JNull)) (\<lambda>list_id.
     if truthy list_id then
       mbind (api_get rm (''list/'' @ py_str list_id @ ''/task?archived=false'')) (\<lambda>tasks.
       lift (getitem_key tasks ''tasks''))
     else
       mbind (api_get rm ''team'') (\<lambda>teams.
       mbind (lift (first_team_id teams)) (\<lambda>team_id.
       mbind (api_get rm (''team/'' @ py_str team_id @ ''/space?archived=false'')) (\<lambda>spaces.
       mbind (lift (ebind (getitem_key spaces ''spaces'') py_iter)) (\<lambda>items.
       mbind (for_each (tasks_of_space rm) items []) (\<lambda>all_tasks.
       ret (JList all_tasks))))))))"

text \<open>\<^verbatim>\<open>create_task\<close>; \<open>arguments\<close> is the address of the argument object.\<close>

definition create_task :: "remote \<Rightarrow> nat \<Rightarrow> json action" where
  "create_task rm arguments =
     mbind (deref arguments) (\<lambda>args.
     mbind (lift (getitem_key args ''list_id'')) (\<lambda>list_id.
     mbind (lift (getitem_key args ''name'')) (\<lambda>nm.
     mbind (lift (py_get args ''description'' (JStr []))) (\<lambda>descr.
     mbind (lift (py_get args ''status'' (JStr ''to do''))) (\<lambda>status.
     mbind (lift (py_contains args ''priority'')) (\<lambda>has_priority.
     mbind (if has_priority
            then mbind (lift (getitem_key args ''priority'')) (\<lambda>p. ret [(''priority'', p)])
            else ret []) (\<lambda>priority.
     api_post rm (''list/'' @ py_str list_id @ ''/task'')
       (JObj ([(''name'', nm), (''description'', descr), (''status'', status)] @ priority)))))))))"

definition get_task :: "remote \<Rightarrow> json \<Rightarrow> json action" where
  "get_task rm task_id = api_get rm (''task/'' @ py_str task_id)"

text \<open>
  \<^verbatim>\<open>update_task\<close>: \<^verbatim>\<open>arguments.pop('task_id')\<close> changes the object at
  \<open>arguments\<close>, and that object, as it then is, is the body sent.
\<close>

definition update_task :: "remote \<Rightarrow> nat \<Rightarrow> json action" where
  "update_task rm arguments =
     mbind (deref arguments) (\<lambda>args.
     mbind (lift (py_pop args ''task_id'')) (\<lambda>popped.
     mbind (store arguments (snd popped)) (\<lambda>_.
     mbind (deref arguments) (\<lambda>body.
     api_put rm (''task/'' @ py_str (fst popped)) body))))"

definition create_task_comment :: "remote \<Rightarrow> json \<Rightarrow> json \<Rightarrow> json action" where
  "create_task_comment rm task_id comment_text =
     api_post rm (''task/'' @ py_str task_id @ ''/comment'') (JObj [(''comment_text'', comment_text)])"

definition get_task_comments :: "remote \<Rightarrow> json \<Rightarrow> json action" where
  "get_task_comments rm task_id = api_get rm (''task/'' @ py_str task_id @ ''/comment'')"

definition get_workspace_members :: "remote \<Rightarrow> json action" where
  "get_workspace_members rm =
     mbind (api_get rm ''team'') (\<lambda>teams.
     mbind (lift (first_team_id teams)) (\<lambda>team_id.
     api_get rm (''team/'' @ py_str team_id)))"

definition create_list :: "remote \<Rightarrow> json \<Rightarrow> json \<Rightarrow> json action" where
  "create_list rm space_id nm =
     api_post rm (''space/'' @ py_str space_id @ ''/list'') (JObj [(''name'', nm)])"

text \<open>\<^verbatim>\<open>arguments.get(k)\<close> on the argument object at address \<open>arguments\<close>.\<close>

definition arg_get :: "nat \<Rightarrow> string \<Rightarrow> json action" where
  "arg_get arguments k = mbind (deref arguments) (\<lambda>args. lift (py_get args k JNull))"

definition execute_tool :: "remote \<Rightarrow> json \<Rightarrow> nat \<Rightarrow> json action" where
  "execute_tool rm tool_name arguments =
     (if tool_name = JStr ''search_workspace'' then
        mbind (arg_get arguments ''query'') (search_workspace rm)
      else if tool_name = JStr ''get_workspace_hierarchy'' then
        get_workspace_hierarchy rm
      else if tool_name = JStr ''get_workspace_tasks'' then
        get_workspace_tasks rm arguments
      else if tool_name = JStr ''create_task'' then
        create_task rm arguments
      else if tool_name = JStr ''get_task'' then
        mbind (arg_get arguments ''task_id'') (get_task rm)
      else if tool_name = JStr ''update_task'' then
        update_task rm arguments
      else if tool_name = JStr ''create_task_comment'' then
        mbind (arg_get arguments ''task_id'') (\<lambda>task_id.
        mbind (arg_get arguments ''comment_text'') (\<lambda>comment_text.
        create_task_comment rm task_id comment_text))
      else if tool_name = JStr ''get_task_comments'' then
        mbind (arg_get arguments ''task_id'') (get_task_comments rm)
      else if tool_name = JStr ''get_workspace_members'' then
        get_workspace_members rm
      else if tool_name = JStr ''create_list'' then
        mbind (arg_get arguments ''space_id'') (\<lambda>space_id.
        mbind (arg_get arguments ''name'') (\<lambda>nm.
        create_list rm space_id nm))
      else raise (ValueError (''Unknown tool: '' @ py_str tool_name)))"

section \<open>The tool catalog\<close>

record ToolInfo =
  name :: string
  description :: string
  inputSchema :: json

definition get_tools_list :: "ToolInfo list" where
  "get_tools_list = [
     \<lparr>name = ''search_workspace'',
      description = ''Search for tasks, lists, folders, and docs across the workspace'',
      inputSchema = JObj [
        (''type'', JStr ''object''),
        (''properties'', JObj [
          (''query'', JObj [(''type'', JStr ''string''), (''description'', JStr ''Search query'')])]),
        (''required'', JList [JStr ''query''])]\<rparr>,
     \<lparr>name = ''get_workspace_hierarchy'',
      description = ''Get the complete workspace structure with spaces, folders, and lists'',
      inputSchema = JObj [(''type'', JStr ''object''), (''properties'', JObj [])]\<rparr>,
     \<lparr>name = ''get_workspace_tasks'',
      description = ''Get all tasks in the workspace with optional filters'',
      inputSchema = JObj [
        (''type'', JStr ''object''),
        (''properties'', JObj [
          (''space_id'', JObj [(''type'', JStr ''string''), (''description'', JStr ''Filter by space ID'')]),
          (''list_id'', JObj [(''type'', JStr ''string''), (''description'', JStr ''Filter by list ID'')]),
          (''assignee'', JObj [(''type'', JStr ''string''), (''description'', JStr ''Filter by assignee ID'')])])]\<rparr>,
     \<lparr>name = ''create_task'',
      description = ''Create a new task in a list'',
      inputSchema = JObj [
        (''type'', JStr ''object''),
        (''properties'', JObj [
          (''list_id'', JObj [(''type'', JStr ''string''), (''description'', JStr ''List ID where task will be created'')]),
          (''name'', JObj [(''type'', JStr ''string''), (''description'', JStr ''Task name'')]),
          (''description'', JObj [(''type'', JStr ''string''), (''description'', JStr ''Task description'')]),
          (''status'', JObj [(''type'', JStr ''string''),
             (''description'', JStr (''Task status (e.g., '' @ [CHR 0x27] @ ''to do'' @ [CHR 0x27] @ '', ''
                @ [CHR 0x27] @ ''in progress'' @ [CHR 0x27] @ '')''))]),
          (''priority'', JObj [(''type'', JStr ''integer''), (''description'', JStr ''Priority level (1-4)'')])]),
        (''required'', JList [JStr ''list_id'', JStr ''name''])]\<rparr>,
     \<lparr>name = ''get_task'',
      description = ''Get detailed information about a specific task'',
      inputSchema = JObj [
        (''type'', JStr ''object''),
        (''properties'', JObj [
          (''task_id'', JObj [(''type'', JStr ''string''), (''description'', JStr ''Task ID'')])]),
        (''required'', JList [JStr ''task_id''])]\<rparr>,
     \<lparr>name = ''update_task'',
      description = ''Update an existing task'',
      inputSchema = JObj [
        (''type'', JStr ''object''),
        (''properties'', JObj [
          (''task_id'', JObj [(''type'', JStr ''string''), (''description'', JStr ''Task ID'')]),
          (''name'', JObj [(''type'', JStr ''string''), (''description'', JStr ''New task name'')]),
          (''description'', JObj [(''type'', JStr ''string''), (''description'', JStr ''New description'')]),
          (''status'', JObj [(''type'', JStr ''string''), (''description'', JStr ''New status'')])]),
        (''required'', JList [JStr ''task_id''])]\<rparr>,
     \<lparr>name = ''create_task_comment'',
      description = ''Add a comment to a task'',
      inputSchema = JObj [
        (''type'', JStr ''object''),
        (''properties'', JObj [
          (''task_id'', JObj [(''type'', JStr ''string''), (''description'', JStr ''Task ID'')]),
          (''comment_text'', JObj [(''type'', JStr ''string''), (''description'', JStr ''Comment text'')])]),
        (''required'', JList [JStr ''task_id'', JStr ''comment_text''])]\<rparr>,
     \<lparr>name = ''get_task_comments'',
      description = ''Get all comments from a task'',
      inputSchema = JObj [
        (''type'', JStr ''object''),
        (''properties'', JObj [
          (''task_id'', JObj [(''type'', JStr ''string''), (''description'', JStr ''Task ID'')])]),
        (''required'', JList [JStr ''task_id''])]\<rparr>,
     \<lparr>name = ''get_workspace_members'',
      description = ''Get all members in the workspace'',
      inputSchema = JObj [(''type'', JStr ''object''), (''properties'', JObj [])]\<rparr>,
     \<lparr>name = ''create_list'',
      description = ''Create a new list in a space'',
      inputSchema = JObj [
        (''type'', JStr ''object''),
        (''properties'', JObj [
          (''space_id'', JObj [(''type'', JStr ''string''), (''description'', JStr ''Space ID'')]),
          (''name'', JObj [(''type'', JStr ''string''), (''description'', JStr ''List name'')])]),
        (''required'', JList [JStr ''space_id'', JStr ''name''])]\<rparr>]"

text \<open>\<^verbatim>\<open>tool.dict()\<close>.\<close>

definition tool_dict :: "ToolInfo \<Rightarrow> json" where
  "tool_dict tool = JObj [
     (''name'', JStr (name tool)),
     (''description'', JStr (description tool)),
     (''inputSchema'', inputSchema tool)]"

section \<open>The JSON-RPC endpoint\<close>

record MCPRequest =
  jsonrpc_req :: string
  id_req :: "int option"
  method_req :: string
  params_req :: "(string \<times> json) list option"

record MCPResponse =
  jsonrpc_resp :: string
  id_resp :: "int option"
  result_resp :: "json option"
  error_resp :: "json option"

text \<open>
  The fields of a response. \<^verbatim>\<open>MCPResponse\<close> declares four fields, each with a default,
  and an instance has all four whatever the constructor was given: a field that was not
  passed is there with the value \<^verbatim>\<open>None\<close>. The route returns the instance as it is;
  it sets no option that would leave a field out.
\<close>

definition response_fields :: "MCPResponse \<Rightarrow> (string \<times> json) list" where
  "response_fields resp =
     [(''jsonrpc'', JStr (jsonrpc_resp resp)),
      (''id'', (case id_resp resp of None \<Rightarrow> JNull | Some i \<Rightarrow> JInt i)),
      (''result'', (case result_resp resp of None \<Rightarrow> JNull | Some v \<Rightarrow> v)),
      (''error'', (case error_resp resp of None \<Rightarrow> JNull | Some e \<Rightarrow> e))]"

definition initialize_result :: json where
  "initialize_result = JObj [
     (''protocolVersion'', JStr ''2024-11-05''),
     (''capabilities'', JObj [(''tools'', JObj [])]),
     (''serverInfo'', JObj [(''name'', JStr ''clickup-mcp-server''), (''version'', JStr ''1.0.0'')])]"

text \<open>
  The body of the \<^verbatim>\<open>try\<close> block of \<^verbatim>\<open>mcp_endpoint\<close>, up to the value of
  \<^verbatim>\<open>result\<close>. The argument object of a \<^verbatim>\<open>tools/call\<close> is the one inside the
  request's parameters, or a new empty one; either way no one else refers to it, and it
  is placed at a new address.
\<close>

definition handle_method :: "remote \<Rightarrow> MCPRequest \<Rightarrow> json action" where
  "handle_method rm request =
     (let method = method_req request;
          params = (case params_req request of None \<Rightarrow> [] | Some p \<Rightarrow> p)
      in if method = ''initialize'' then
           ret initialize_result
         else if method = ''tools/list'' then
           ret (JObj [(''tools'', JList (map tool_dict get_tools_list))])
         else if method = ''tools/call'' then
           (let tool_name = (case map_of params ''name'' of None \<Rightarrow> JNull | Some v \<Rightarrow> v);
                arguments = (case map_of params ''arguments'' of None \<Rightarrow> JObj [] | Some v \<Rightarrow> v)
            in mbind (alloc arguments) (\<lambda>a.
               mbind (execute_tool rm tool_name a) (\<lambda>tool_result.
               ret (JObj [
                 (''content'', JList [JObj [(''type'', JStr ''text''), (''text'', JStr (json_dumps tool_result))]]),
                 (''isError'', JBool False)]))))
         else raise (ValueError (''Unknown method: '' @ method)))"

text \<open>
  \<^verbatim>\<open>mcp_endpoint\<close>: the result wrapped as a response, or, for whatever the body
  raised, the \<^verbatim>\<open>except Exception\<close> branch.
\<close>

definition mcp_endpoint :: "remote \<Rightarrow> MCPRequest \<Rightarrow> world \<Rightarrow> MCPResponse \<times> world" where
  "mcp_endpoint rm request st =
     (case handle_method rm request st of
        (Inr result, st') \<Rightarrow>
          (\<lparr>jsonrpc_resp = ''2.0'', id_resp = id_req request,
            result_resp = Some result, error_resp = None\<rparr>, st')
      | (Inl e, st') \<Rightarrow>
          (\<lparr>jsonrpc_resp = ''2.0'', id_resp = id_req request,
            result_resp = None,
            error_resp = Some (JObj [(''code'', JInt (- 32603)), (''message'', JStr (str_exn e))])\<rparr>, st'))"

section \<open>Notions used to state the properties\<close>

text \<open>The exchanges with the remote service made between two states of the server.\<close>

definition since :: "world \<Rightarrow> world \<Rightarrow> exchange list" where
  "since st st' = drop (length (sent st)) (sent st')"

text \<open>The error member that \<^verbatim>\<open>mcp_endpoint\<close> builds for an exception.\<close>

definition rpc_error :: "exn \<Rightarrow> json" where
  "rpc_error e = JObj [(''code'', JInt (- 32603)), (''message'', JStr (str_exn e))]"

text \<open>\<^verbatim>\<open>(request.params or {}).get(k, dflt)\<close>.\<close>

definition param :: "MCPRequest \<Rightarrow> string \<Rightarrow> json \<Rightarrow> json" where
  "param request k dflt =
     (case params_req request of
        None \<Rightarrow> dflt
      | Some ps \<Rightarrow> (case map_of ps k of None \<Rightarrow> dflt | Some v \<Rightarrow> v))"

text \<open>
  An action is faithful to the remote service when it only adds to the record of
  exchanges, and every failed exchange it adds is the exception it ends with: no tool
  swallows a failure of the remote API or goes on after one.
\<close>

definition faithful :: "'a action \<Rightarrow> bool" where
  "faithful m = (\<forall>st. \<exists>new. sent (snd (m st)) = sent st @ new
      \<and> (\<forall>x \<in> set new. \<forall>e. snd x = Inl e \<longrightarrow> fst (m st) = Inl e))"

subsection \<open>Concrete servers, services and requests for the examples\<close>

definition st0 :: world where
  "st0 = \<lparr>sent = [], heap = (\<lambda>_. JNull), brk = 0\<rparr>"

definition failing_remote :: remote where
  "failing_remote log rq = Inl (RequestException ''404 Client Error: Not Found'')"

definition silent_remote :: remote where
  "silent_remote log rq = Inr (JObj [])"

definition ping_request :: MCPRequest where
  "ping_request = \<lparr>jsonrpc_req = ''2.0'', id_req = Some 7, method_req = ''ping'', params_req = None\<rparr>"

definition unknown_tool_request :: MCPRequest where
  "unknown_tool_request = \<lparr>jsonrpc_req = ''2.0'', id_req = Some 2, method_req = ''tools/call'',
     params_req = Some [(''name'', JStr ''delete_workspace''), (''arguments'', JObj [])]\<rparr>"

definition get_task_request :: MCPRequest where
  "get_task_request = \<lparr>jsonrpc_req = ''2.0'', id_req = Some 3, method_req = ''tools/call'',
     params_req = Some [(''name'', JStr ''get_task''),
                        (''arguments'', JObj [(''task_id'', JStr ''T1'')])]\<rparr>"

definition create_task_request :: MCPRequest where
  "create_task_request = \<lparr>jsonrpc_req = ''2.0'', id_req = Some 4, method_req = ''tools/call'',
     params_req = Some [(''name'', JStr ''create_task''),
                        (''arguments'', JObj [(''name'', JStr ''Test'')])]\<rparr>"

definition update_task_request :: MCPRequest where
  "update_task_request = \<lparr>jsonrpc_req = ''2.0'', id_req = Some 5, method_req = ''tools/call'',
     params_req = Some [(''name'', JStr ''update_task''),
                        (''arguments'', JList [JStr ''T1''])]\<rparr>"

definition tools_list_request :: MCPRequest where
  "tools_list_request = \<lparr>jsonrpc_req = ''2.0'', id_req = Some 1, method_req = ''tools/list'', params_req = None\<rparr>"

definition initialize_request :: MCPRequest where
  "initialize_request = \<lparr>jsonrpc_req = ''2.0'', id_req = Some 0, method_req = ''initialize'', params_req = None\<rparr>"

text \<open>The body that \<^verbatim>\<open>create_task\<close> is to send for the argument object \<open>kvs\<close> with name \<open>nm\<close>.\<close>

definition expected_task_data :: "(string \<times> json) list \<Rightarrow> json \<Rightarrow> json" where
  "expected_task_data kvs nm = JObj (
     [(''name'', nm),
      (''description'', (case map_of kvs ''description'' of None \<Rightarrow> JStr [] | Some d \<Rightarrow> d)),
      (''status'', (case map_of kvs ''status'' of None \<Rightarrow> JStr ''to do'' | Some s \<Rightarrow> s))]
     @ (case map_of kvs ''priority'' of None \<Rightarrow> [] | Some p \<Rightarrow> [(''priority'', p)]))"

text \<open>An object with one key removed, every other pair kept as it is and in place.\<close>

definition without_key :: "string \<Rightarrow> (string \<times> json) list \<Rightarrow> (string \<times> json) list" where
  "without_key k kvs = filter (\<lambda>kv. fst kv \<noteq> k) kvs"

text \<open>A server with one argument object, at address 0.\<close>

definition st_args :: "json \<Rightarrow> world" where
  "st_args args = \<lparr>sent = [], heap = (\<lambda>_. JNull)(0 := args), brk = 1\<rparr>"





subsection \<open>The answer to \<^verbatim>\<open>tools/list\<close>\<close>

text \<open>
  The document that a \<^verbatim>\<open>tools/list\<close> call is to return: the ten descriptors of
  \<^verbatim>\<open>get_tools_list\<close> (lines 96 to 207), each as the object of its three fields
  \<^verbatim>\<open>name\<close>, \<^verbatim>\<open>description\<close> and \<^verbatim>\<open>inputSchema\<close>, under the key \<^verbatim>\<open>tools\<close>.
\<close>

definition tools_document :: json where
  "tools_document = JObj [(''tools'', JList [
            JObj [
              (''name'', JStr ''search_workspace''),
              (''description'', JStr ''Search for tasks, lists, folders, and docs across the workspace''),
              (''inputSchema'', JObj [
                (''type'', JStr ''object''),
                (''properties'', JObj [
                  (''query'', JObj [(''type'', JStr ''string''), (''description'', JStr ''Search query'')])]),
                (''required'', JList [JStr ''query''])])],
            JObj [
              (''name'', JStr ''get_workspace_hierarchy''),
              (''description'', JStr ''Get the complete workspace structure with spaces, folders, and lists''),
              (''inputSchema'', JObj [(''type'', JStr ''object''), (''properties'', JObj [])])],
            JObj [
              (''name'', JStr ''get_workspace_tasks''),
              (''description'', JStr ''Get all tasks in the workspace with optional filters''),
              (''inputSchema'', JObj [
                (''type'', JStr ''object''),
                (''properties'', JObj [
                  (''space_id'', JObj [
                    (''type'', JStr ''string''),
                    (''description'', JStr ''Filter by space ID'')]),
                  (''list_id'', JObj [(''type'', JStr ''string''), (''description'', JStr ''Filter by list ID'')]),
                  (''assignee'', JObj [
                    (''type'', JStr ''string''),
                    (''description'', JStr ''Filter by assignee ID'')])])])],
            JObj [
              (''name'', JStr ''create_task''),
              (''description'', JStr ''Create a new task in a list''),
              (''inputSchema'', JObj [
                (''type'', JStr ''object''),
                (''properties'', JObj [
                  (''list_id'', JObj [
                    (''type'', JStr ''string''),
                    (''description'', JStr ''List ID where task will be created'')]),
                  (''name'', JObj [(''type'', JStr ''string''), (''description'', JStr ''Task name'')]),
                  (''description'', JObj [(''type'', JStr ''string''), (''description'', JStr ''Task description'')]),
                  (''status'', JObj [
                    (''type'', JStr ''string''),
                    (''description'', JStr (''Task status (e.g., '' @ [CHR 0x27] @ ''to do'' @ [CHR 0x27] @ '', '' @ [CHR 0x27] @ ''in progress'' @ [CHR 0x27] @ '')''))]),
                  (''priority'', JObj [
                    (''type'', JStr ''integer''),
                    (''description'', JStr ''Priority level (1-4)'')])]),
                (''required'', JList [JStr ''list_id'', JStr ''name''])])],
            JObj [
              (''name'', JStr ''get_task''),
              (''description'', JStr ''Get detailed information about a specific task''),
              (''inputSchema'', JObj [
                (''type'', JStr ''object''),
                (''properties'', JObj [
                  (''task_id'', JObj [(''type'', JStr ''string''), (''description'', JStr ''Task ID'')])]),
                (''required'', JList [JStr ''task_id''])])],
            JObj [
              (''name'', JStr ''update_task''),
              (''description'', JStr ''Update an existing task''),
              (''inputSchema'', JObj [
                (''type'', JStr ''object''),
                (''properties'', JObj [
                  (''task_id'', JObj [(''type'', JStr ''string''), (''description'', JStr ''Task ID'')]),
                  (''name'', JObj [(''type'', JStr ''string''), (''description'', JStr ''New task name'')]),
                  (''description'', JObj [(''type'', JStr ''string''), (''description'', JStr ''New description'')]),
                  (''status'', JObj [(''type'', JStr ''string''), (''description'', JStr ''New status'')])]),
                (''required'', JList [JStr ''task_id''])])],
            JObj [
              (''name'', JStr ''create_task_comment''),
              (''description'', JStr ''Add a comment to a task''),
              (''inputSchema'', JObj [
                (''type'', JStr ''object''),
                (''properties'', JObj [
                  (''task_id'', JObj [(''type'', JStr ''string''), (''description'', JStr ''Task ID'')]),
                  (''comment_text'', JObj [(''type'', JStr ''string''), (''description'', JStr ''Comment text'')])]),
                (''required'', JList [JStr ''task_id'', JStr ''comment_text''])])],
            JObj [
              (''name'', JStr ''get_task_comments''),
              (''description'', JStr ''Get all comments from a task''),
              (''inputSchema'', JObj [
                (''type'', JStr ''object''),
                (''properties'', JObj [
                  (''task_id'', JObj [(''type'', JStr ''string''), (''description'', JStr ''Task ID'')])]),
                (''required'', JList [JStr ''task_id''])])],
            JObj [
              (''name'', JStr ''get_workspace_members''),
              (''description'', JStr ''Get all members in the workspace''),
              (''inputSchema'', JObj [(''type'', JStr ''object''), (''properties'', JObj [])])],
            JObj [
              (''name'', JStr ''create_list''),
              (''description'', JStr ''Create a new list in a space''),
              (''inputSchema'', JObj [
                (''type'', JStr ''object''),
                (''properties'', JObj [
                  (''space_id'', JObj [(''type'', JStr ''string''), (''description'', JStr ''Space ID'')]),
                  (''name'', JObj [(''type'', JStr ''string''), (''description'', JStr ''List name'')])]),
                (''required'', JList [JStr ''space_id'', JStr ''name''])])]])]"

text \<open>
  What a client reads from a response: the descriptors under \<^verbatim>\<open>tools\<close> of its result,
  and the name of each, \<^verbatim>\<open>d['name']\<close>.
\<close>

definition listed_tools :: "MCPResponse \<Rightarrow> json list" where
  "listed_tools resp =
     (case result_resp resp of
        Some (JObj kvs) \<Rightarrow> (case map_of kvs ''tools'' of Some (JList ds) \<Rightarrow> ds | _ \<Rightarrow> [])
      | _ \<Rightarrow> [])"

definition listed_names :: "MCPResponse \<Rightarrow> (exn + json) list" where
  "listed_names resp = map (\<lambda>d. getitem_key d ''name'') (listed_tools resp)"

subsection \<open>What a search fetches\<close>

text \<open>
  The items under key \<open>k\<close> of a document, as a loop over \<^verbatim>\<open>doc[k]\<close> sees them.
\<close>

definition items_of :: "string \<Rightarrow> json \<Rightarrow> json list" where
  "items_of k doc = (case ebind (getitem_key doc k) py_iter of Inl _ \<Rightarrow> [] | Inr xs \<Rightarrow> xs)"

text \<open>
  The items fetched by the successful GET calls, among the exchanges \<open>log\<close>, whose
  address starts with \<open>pre\<close> below the base address: the tasks are what the calls
  \<open>list/{id}/task\<close> gave, the lists what the calls \<open>space/{id}/list\<close> gave, in the
  order of the calls. \<open>fetched_spaces\<close> collects the value under \<^verbatim>\<open>spaces\<close> of each
  answer to a call \<open>team/{id}/space\<close>.
\<close>

definition fetched :: "string \<Rightarrow> string \<Rightarrow> exchange list \<Rightarrow> json list" where
  "fetched pre k log = concat (map (\<lambda>x.
     (case x of
        (GET url, Inr doc) \<Rightarrow> if starts_with url (base_url @ pre) then items_of k doc else []
      | _ \<Rightarrow> [])) log)"

definition fetched_tasks :: "exchange list \<Rightarrow> json list" where
  "fetched_tasks log = fetched ''/list/'' ''tasks'' log"

definition fetched_lists :: "exchange list \<Rightarrow> json list" where
  "fetched_lists log = fetched ''/space/'' ''lists'' log"

definition fetched_spaces :: "exchange list \<Rightarrow> json list" where
  "fetched_spaces log = concat (map (\<lambda>x.
     (case x of
        (GET url, Inr doc) \<Rightarrow>
          if starts_with url (base_url @ ''/team/'')
          then (case getitem_key doc ''spaces'' of Inl _ \<Rightarrow> [] | Inr v \<Rightarrow> [v]) else []
      | _ \<Rightarrow> [])) log)"










subsection \<open>Orderly remote services\<close>








section \<open>Properties of the endpoint\<close>

lemma mbind_simps:
  "mbind (ret x) f st = f x st"
  "mbind (raise e) f st = (Inl e, st)"
  "mbind (lift (Inr x)) f st = f x st"
  "mbind (lift (Inl e)) f st = (Inl e, st)"
  by (simp_all add: mbind_def ret_def raise_def lift_def)

lemma catalog_names:
  "map name get_tools_list = [''search_workspace'', ''get_workspace_hierarchy'',
     ''get_workspace_tasks'', ''create_task'', ''get_task'', ''update_task'',
     ''create_task_comment'', ''get_task_comments'', ''get_workspace_members'', ''create_list'']"
  by (simp add: get_tools_list_def)

lemma unknown_tool:
  assumes "tool_name \<notin> JStr ` set (map name get_tools_list)"
  shows "execute_tool rm tool_name a st = (Inl (ValueError (''Unknown tool: '' @ py_str tool_name)), st)"
  using assms unfolding catalog_names by (simp add: execute_tool_def raise_def)

text \<open>
  Claim C2. The response carries the request's \<^verbatim>\<open>id\<close> as it came, an integer or
  none, whether the outcome is a result or an error: for every remote service, request
  and state of the server.
\<close>

theorem response_id_echo:
  "id_resp (fst (mcp_endpoint rm request st)) = id_req request"
  by (simp add: mcp_endpoint_def split: prod.splits sum.splits)

text \<open>
  Claim C3 says that a response contains exactly one of the fields \<^verbatim>\<open>result\<close> and
  \<^verbatim>\<open>error\<close>, an error response carrying no result and a success response no error.
  The response to the unknown method \<open>ping\<close> has both fields, the result being
  \<^verbatim>\<open>None\<close>; so has the response to \<open>initialize\<close>, the error being \<^verbatim>\<open>None\<close>.
\<close>

theorem both_fields_counterexample:
  "response_fields (fst (mcp_endpoint silent_remote ping_request st0)) =
     [(''jsonrpc'', JStr ''2.0''), (''id'', JInt 7), (''result'', JNull),
      (''error'', JObj [(''code'', JInt (- 32603)), (''message'', JStr ''Unknown method: ping'')])]
   \<and> map_of (response_fields (fst (mcp_endpoint silent_remote ping_request st0))) ''result'' = Some JNull
   \<and> response_fields (fst (mcp_endpoint silent_remote initialize_request st0)) =
     [(''jsonrpc'', JStr ''2.0''), (''id'', JInt 0), (''result'', initialize_result), (''error'', JNull)]
   \<and> map_of (response_fields (fst (mcp_endpoint silent_remote initialize_request st0))) ''error'' = Some JNull"
  by (simp add: response_fields_def mcp_endpoint_def handle_method_def ping_request_def
      initialize_request_def ret_def raise_def str_exn_def)

text \<open>
  Claim C3, amended. Every response has both fields, \<^verbatim>\<open>result\<close> and \<^verbatim>\<open>error\<close>, and
  exactly one of the two is not \<^verbatim>\<open>None\<close>: either the result is set, to an object, and
  the error is \<^verbatim>\<open>None\<close>, or the error is set, to an object, and the result is
  \<^verbatim>\<open>None\<close>; never both and never neither. This holds for every remote service,
  request and state of the server.
\<close>

theorem response_result_xor_error:
  "map fst (response_fields (fst (mcp_endpoint rm request st))) = [''jsonrpc'', ''id'', ''result'', ''error'']
   \<and> ((\<exists>v. result_resp (fst (mcp_endpoint rm request st)) = Some (JObj v)
          \<and> error_resp (fst (mcp_endpoint rm request st)) = None
          \<and> map_of (response_fields (fst (mcp_endpoint rm request st))) ''result'' = Some (JObj v)
          \<and> map_of (response_fields (fst (mcp_endpoint rm request st))) ''error'' = Some JNull)
      \<or> (\<exists>e. error_resp (fst (mcp_endpoint rm request st)) = Some (JObj e)
          \<and> result_resp (fst (mcp_endpoint rm request st)) = None
          \<and> map_of (response_fields (fst (mcp_endpoint rm request st))) ''error'' = Some (JObj e)
          \<and> map_of (response_fields (fst (mcp_endpoint rm request st))) ''result'' = Some JNull))"
proof -
  obtain r st' where h: "handle_method rm request st = (r, st')"
    by (cases "handle_method rm request st")
  show ?thesis
  proof (cases r)
    case (Inl e)
    with h show ?thesis
      by (simp add: mcp_endpoint_def response_fields_def)
  next
    case (Inr v)
    with h have "\<exists>kvs. v = JObj kvs"
      by (auto simp add: handle_method_def Let_def ret_def raise_def initialize_result_def
          mbind_def alloc_def split: if_splits prod.splits sum.splits)
    with h Inr show ?thesis
      by (auto simp add: mcp_endpoint_def response_fields_def)
  qed
qed

theorem response_result_xor_error_witness:
  "result_resp (fst (mcp_endpoint silent_remote ping_request st0)) = None
   \<and> error_resp (fst (mcp_endpoint silent_remote ping_request st0)) =
       Some (JObj [(''code'', JInt (- 32603)), (''message'', JStr ''Unknown method: ping'')])
   \<and> result_resp (fst (mcp_endpoint silent_remote initialize_request st0)) = Some initialize_result
   \<and> error_resp (fst (mcp_endpoint silent_remote initialize_request st0)) = None"
  using response_result_xor_error[of silent_remote ping_request st0]
    response_result_xor_error[of silent_remote initialize_request st0]
  by (simp add: mcp_endpoint_def handle_method_def ping_request_def
      initialize_request_def ret_def raise_def str_exn_def)

subsection \<open>Failures of the remote service reach the caller\<close>

lemma faithful_ret: "faithful (ret x)"
  by (simp add: faithful_def ret_def)

lemma faithful_raise: "faithful (raise e)"
  by (simp add: faithful_def raise_def)

lemma faithful_lift: "faithful (lift r)"
  by (simp add: faithful_def lift_def)

lemma faithful_deref: "faithful (deref a)"
  by (simp add: faithful_def deref_def)

lemma faithful_store: "faithful (store a v)"
  by (simp add: faithful_def store_def)

lemma faithful_alloc: "faithful (alloc v)"
  by (simp add: faithful_def alloc_def)

lemma faithful_http: "faithful (http rm rq)"
  by (simp add: faithful_def http_def Let_def)

lemma faithful_mbind:
  assumes m: "faithful m" and f: "\<And>x. faithful (f x)"
  shows "faithful (mbind m f)"
  unfolding faithful_def
proof
  fix st
  from m have "\<exists>new. sent (snd (m st)) = sent st @ new
      \<and> (\<forall>x \<in> set new. \<forall>e. snd x = Inl e \<longrightarrow> fst (m st) = Inl e)"
    unfolding faithful_def by (rule spec)
  then obtain new1 where n1: "sent (snd (m st)) = sent st @ new1"
    and e1: "\<And>x e. x \<in> set new1 \<Longrightarrow> snd x = Inl e \<Longrightarrow> fst (m st) = Inl e"
    by blast
  show "\<exists>new. sent (snd (mbind m f st)) = sent st @ new
      \<and> (\<forall>x \<in> set new. \<forall>e. snd x = Inl e \<longrightarrow> fst (mbind m f st) = Inl e)"
  proof (cases "fst (m st)")
    case (Inl e)
    then have run: "mbind m f st = (Inl e, snd (m st))"
      by (cases "m st") (simp add: mbind_def)
    show ?thesis
    proof (intro exI conjI ballI allI impI)
      show "sent (snd (mbind m f st)) = sent st @ new1" using run n1 by simp
    next
      fix x e' assume "x \<in> set new1" "snd x = Inl e'"
      then have "fst (m st) = Inl e'" by (rule e1)
      then show "fst (mbind m f st) = Inl e'" using run Inl by simp
    qed
  next
    case (Inr x)
    then have run: "mbind m f st = f x (snd (m st))"
      by (cases "m st") (simp add: mbind_def)
    from f[of x] have "\<exists>new. sent (snd (f x (snd (m st)))) = sent (snd (m st)) @ new
        \<and> (\<forall>y \<in> set new. \<forall>e. snd y = Inl e \<longrightarrow> fst (f x (snd (m st))) = Inl e)"
      unfolding faithful_def by (rule spec)
    then obtain new2 where n2: "sent (snd (f x (snd (m st)))) = sent (snd (m st)) @ new2"
      and e2: "\<And>y e. y \<in> set new2 \<Longrightarrow> snd y = Inl e \<Longrightarrow> fst (f x (snd (m st))) = Inl e"
      by blast
    show ?thesis
    proof (intro exI conjI ballI allI impI)
      show "sent (snd (mbind m f st)) = sent st @ (new1 @ new2)" using run n1 n2 by simp
    next
      fix y e' assume y: "y \<in> set (new1 @ new2)" and s: "snd y = Inl e'"
      have "y \<notin> set new1"
      proof
        assume "y \<in> set new1"
        then have "fst (m st) = Inl e'" using s by (rule e1)
        then show False using Inr by simp
      qed
      then have "y \<in> set new2" using y by simp
      then have "fst (f x (snd (m st))) = Inl e'" using s by (rule e2)
      then show "fst (mbind m f st) = Inl e'" using run by simp
    qed
  qed
qed

lemma for_each_as_mbind:
  "for_each body (x # xs) acc = mbind (body x acc) (for_each body xs)"
  by (rule ext) (simp add: mbind_def split: prod.splits sum.splits)

lemma for_each_nil: "for_each body [] acc = ret acc"
  by (rule ext) (simp add: ret_def)

lemma faithful_for_each:
  assumes "\<And>x acc. faithful (body x acc)"
  shows "faithful (for_each body xs acc)"
proof (induction xs arbitrary: acc)
  case Nil
  show ?case by (simp add: for_each_nil faithful_ret)
next
  case (Cons x xs)
  show ?case unfolding for_each_as_mbind
    by (rule faithful_mbind) (rule assms, rule Cons.IH)
qed

lemma faithful_if:
  assumes "c \<Longrightarrow> faithful a" and "\<not> c \<Longrightarrow> faithful b"
  shows "faithful (if c then a else b)"
  using assms by simp

lemma faithful_api:
  "faithful (api_get rm endpoint)"
  "faithful (api_post rm endpoint data)"
  "faithful (api_put rm endpoint data)"
  by (simp_all add: api_get_def api_post_def api_put_def faithful_http)

lemmas faithful_basic = faithful_mbind faithful_if faithful_ret faithful_raise faithful_lift
  faithful_deref faithful_store faithful_alloc faithful_api faithful_for_each

lemma faithful_search_task: "faithful (search_task query task res)"
  unfolding search_task_def by (intro faithful_basic)

lemma faithful_search_list: "faithful (search_list rm query lst res)"
  unfolding search_list_def by (intro faithful_basic faithful_search_task)

lemma faithful_search_space: "faithful (search_space rm query space res)"
  unfolding search_space_def by (intro faithful_basic faithful_search_list)

lemma faithful_search_workspace: "faithful (search_workspace rm query)"
  unfolding search_workspace_def by (intro faithful_basic faithful_search_space)

lemma faithful_hierarchy_space: "faithful (hierarchy_space rm space acc)"
  unfolding hierarchy_space_def by (intro faithful_basic)

lemma faithful_get_workspace_hierarchy: "faithful (get_workspace_hierarchy rm)"
  unfolding get_workspace_hierarchy_def by (intro faithful_basic faithful_hierarchy_space)

lemma faithful_tasks_of_list: "faithful (tasks_of_list rm lst all_tasks)"
  unfolding tasks_of_list_def by (intro faithful_basic)

lemma faithful_tasks_of_space: "faithful (tasks_of_space rm space all_tasks)"
  unfolding tasks_of_space_def by (intro faithful_basic faithful_tasks_of_list)

lemma faithful_get_workspace_tasks: "faithful (get_workspace_tasks rm filters)"
  unfolding get_workspace_tasks_def by (intro faithful_basic faithful_tasks_of_space)

lemma faithful_create_task: "faithful (create_task rm arguments)"
  unfolding create_task_def by (intro faithful_basic)

lemma faithful_update_task: "faithful (update_task rm arguments)"
  unfolding update_task_def by (intro faithful_basic)

lemma faithful_small_tools:
  "faithful (get_task rm task_id)"
  "faithful (create_task_comment rm task_id comment_text)"
  "faithful (get_task_comments rm task_id)"
  "faithful (get_workspace_members rm)"
  "faithful (create_list rm space_id nm)"
  "faithful (arg_get arguments k)"
  unfolding get_task_def create_task_comment_def get_task_comments_def
    get_workspace_members_def create_list_def arg_get_def
  by (intro faithful_basic)+

lemma faithful_execute_tool: "faithful (execute_tool rm tool_name arguments)"
  unfolding execute_tool_def
  by (intro faithful_basic faithful_small_tools faithful_search_workspace
      faithful_get_workspace_hierarchy faithful_get_workspace_tasks faithful_create_task
      faithful_update_task)

lemma faithful_handle_method: "faithful (handle_method rm request)"
  unfolding handle_method_def Let_def
  by (intro faithful_basic faithful_execute_tool)


subsection \<open>Faults and the error envelope\<close>

lemma endpoint_on_fault:
  assumes "fst (handle_method rm request st) = Inl e"
  shows "fst (mcp_endpoint rm request st) =
           \<lparr>jsonrpc_resp = ''2.0'', id_resp = id_req request,
             result_resp = None, error_resp = Some (rpc_error e)\<rparr>"
  using assms by (cases "handle_method rm request st") (simp add: mcp_endpoint_def rpc_error_def)

lemma endpoint_world:
  "snd (mcp_endpoint rm request st) = snd (handle_method rm request st)"
  by (simp add: mcp_endpoint_def split: prod.splits sum.splits)

lemma handle_tools_call:
  assumes "method_req request = ''tools/call''"
  shows "handle_method rm request =
           mbind (alloc (param request ''arguments'' (JObj []))) (\<lambda>a.
           mbind (execute_tool rm (param request ''name'' JNull) a) (\<lambda>tool_result.
           ret (JObj [
             (''content'', JList [JObj [(''type'', JStr ''text''), (''text'', JStr (json_dumps tool_result))]]),
             (''isError'', JBool False)])))"
  using assms by (simp add: handle_method_def param_def Let_def split: option.splits)

lemma unknown_method_fault:
  assumes "method_req request \<notin> {''initialize'', ''tools/list'', ''tools/call''}"
  shows "fst (handle_method rm request st) = Inl (ValueError (''Unknown method: '' @ method_req request))"
  using assms by (simp add: handle_method_def raise_def)

lemma unknown_tool_fault:
  assumes "method_req request = ''tools/call''"
    and "param request ''name'' JNull \<notin> JStr ` set (map name get_tools_list)"
  shows "fst (handle_method rm request st) =
           Inl (ValueError (''Unknown tool: '' @ py_str (param request ''name'' JNull)))"
  using assms(2) unfolding handle_tools_call[OF assms(1)]
  by (simp add: mbind_def alloc_def unknown_tool)

lemma remote_fault:
  assumes "x \<in> set (since st (snd (handle_method rm request st)))" and "snd x = Inl e"
  shows "fst (handle_method rm request st) = Inl e"
proof -
  have "\<exists>new. sent (snd (handle_method rm request st)) = sent st @ new
      \<and> (\<forall>x \<in> set new. \<forall>e. snd x = Inl e \<longrightarrow> fst (handle_method rm request st) = Inl e)"
    using faithful_handle_method[of rm request] unfolding faithful_def by (rule spec)
  then obtain new where n: "sent (snd (handle_method rm request st)) = sent st @ new"
    and e: "\<And>x e. x \<in> set new \<Longrightarrow> snd x = Inl e \<Longrightarrow> fst (handle_method rm request st) = Inl e"
    by blast
  have "since st (snd (handle_method rm request st)) = new"
    by (simp add: since_def n)
  with assms e show ?thesis by simp
qed

lemma create_task_argument_fault:
  assumes "method_req request = ''tools/call''"
    and "param request ''name'' JNull = JStr ''create_task''"
    and "getitem_key (param request ''arguments'' (JObj [])) ''list_id'' = Inl e"
  shows "fst (handle_method rm request st) = Inl e"
  using assms(2,3) unfolding handle_tools_call[OF assms(1)]
  by (simp add: mbind_def alloc_def execute_tool_def create_task_def deref_def lift_def)

lemma update_task_argument_fault:
  assumes "method_req request = ''tools/call''"
    and "param request ''name'' JNull = JStr ''update_task''"
    and "py_pop (param request ''arguments'' (JObj [])) ''task_id'' = Inl e"
  shows "fst (handle_method rm request st) = Inl e"
  using assms(2,3) unfolding handle_tools_call[OF assms(1)]
  by (simp add: mbind_def alloc_def execute_tool_def update_task_def deref_def lift_def)


lemmas run_simps = mcp_endpoint_def handle_method_def execute_tool_def mbind_def ret_def raise_def
  lift_def alloc_def deref_def store_def arg_get_def http_def api_get_def api_post_def api_put_def
  base_url_def Let_def st0_def since_def rpc_error_def param_def str_exn_def py_str_def
  getitem_key_def py_get_def py_pop_def catalog_names

text \<open>
  Claim C1. Whatever the body of \<^verbatim>\<open>mcp_endpoint\<close> raises is answered by a response
  whose error member is \<open>{code: -32603, message: str(e)}\<close> and whose result is absent;
  the endpoint is a total function to responses, so nothing escapes it. This holds in
  particular for an unknown method, for a \<^verbatim>\<open>tools/call\<close> with a name outside the
  catalog, for every failed exchange with the remote service during the request, and for
  argument objects from which \<^verbatim>\<open>create_task\<close> cannot read \<^verbatim>\<open>list_id\<close> or
  \<^verbatim>\<open>update_task\<close> cannot pop \<^verbatim>\<open>task_id\<close> (the key is missing, or the arguments
  are no object).
\<close>

theorem faults_become_rpc_errors:
  "(\<forall>e. fst (handle_method rm request st) = Inl e \<longrightarrow>
        fst (mcp_endpoint rm request st) =
          \<lparr>jsonrpc_resp = ''2.0'', id_resp = id_req request,
            result_resp = None, error_resp = Some (rpc_error e)\<rparr>)
   \<and> (method_req request \<notin> {''initialize'', ''tools/list'', ''tools/call''} \<longrightarrow>
        error_resp (fst (mcp_endpoint rm request st)) =
          Some (rpc_error (ValueError (''Unknown method: '' @ method_req request)))
        \<and> result_resp (fst (mcp_endpoint rm request st)) = None)
   \<and> (method_req request = ''tools/call''
        \<and> param request ''name'' JNull \<notin> JStr ` set (map name get_tools_list) \<longrightarrow>
        error_resp (fst (mcp_endpoint rm request st)) =
          Some (rpc_error (ValueError (''Unknown tool: '' @ py_str (param request ''name'' JNull))))
        \<and> result_resp (fst (mcp_endpoint rm request st)) = None)
   \<and> (\<forall>x \<in> set (since st (snd (mcp_endpoint rm request st))). \<forall>e. snd x = Inl e \<longrightarrow>
        error_resp (fst (mcp_endpoint rm request st)) = Some (rpc_error e)
        \<and> result_resp (fst (mcp_endpoint rm request st)) = None)
   \<and> (\<forall>e. method_req request = ''tools/call''
        \<and> param request ''name'' JNull = JStr ''create_task''
        \<and> getitem_key (param request ''arguments'' (JObj [])) ''list_id'' = Inl e \<longrightarrow>
        error_resp (fst (mcp_endpoint rm request st)) = Some (rpc_error e)
        \<and> result_resp (fst (mcp_endpoint rm request st)) = None)
   \<and> (\<forall>e. method_req request = ''tools/call''
        \<and> param request ''name'' JNull = JStr ''update_task''
        \<and> py_pop (param request ''arguments'' (JObj [])) ''task_id'' = Inl e \<longrightarrow>
        error_resp (fst (mcp_endpoint rm request st)) = Some (rpc_error e)
        \<and> result_resp (fst (mcp_endpoint rm request st)) = None)"
proof (intro conjI allI ballI impI)
  fix e assume "fst (handle_method rm request st) = Inl e"
  then show "fst (mcp_endpoint rm request st) =
          \<lparr>jsonrpc_resp = ''2.0'', id_resp = id_req request,
            result_resp = None, error_resp = Some (rpc_error e)\<rparr>"
    by (rule endpoint_on_fault)
next
  assume h: "method_req request \<notin> {''initialize'', ''tools/list'', ''tools/call''}"
  note f = endpoint_on_fault[OF unknown_method_fault[OF h], of rm st]
  show "error_resp (fst (mcp_endpoint rm request st)) =
          Some (rpc_error (ValueError (''Unknown method: '' @ method_req request)))"
    by (simp add: f)
  show "result_resp (fst (mcp_endpoint rm request st)) = None"
    by (simp add: f)
next
  assume h: "method_req request = ''tools/call''
        \<and> param request ''name'' JNull \<notin> JStr ` set (map name get_tools_list)"
  note f = endpoint_on_fault[OF unknown_tool_fault[OF conjunct1[OF h] conjunct2[OF h]], of rm st]
  show "error_resp (fst (mcp_endpoint rm request st)) =
          Some (rpc_error (ValueError (''Unknown tool: '' @ py_str (param request ''name'' JNull))))"
    by (simp add: f)
  show "result_resp (fst (mcp_endpoint rm request st)) = None"
    by (simp add: f)
next
  fix x e
  assume x: "x \<in> set (since st (snd (mcp_endpoint rm request st)))" and s: "snd x = Inl e"
  from x have "x \<in> set (since st (snd (handle_method rm request st)))"
    by (simp add: endpoint_world)
  then have "fst (handle_method rm request st) = Inl e" using s by (rule remote_fault)
  note f = endpoint_on_fault[OF this]
  show "error_resp (fst (mcp_endpoint rm request st)) = Some (rpc_error e)" by (simp add: f)
  show "result_resp (fst (mcp_endpoint rm request st)) = None" by (simp add: f)
next
  fix e
  assume h: "method_req request = ''tools/call''
        \<and> param request ''name'' JNull = JStr ''create_task''
        \<and> getitem_key (param request ''arguments'' (JObj [])) ''list_id'' = Inl e"
  then have "fst (handle_method rm request st) = Inl e"
    by (intro create_task_argument_fault) simp_all
  note f = endpoint_on_fault[OF this]
  show "error_resp (fst (mcp_endpoint rm request st)) = Some (rpc_error e)" by (simp add: f)
  show "result_resp (fst (mcp_endpoint rm request st)) = None" by (simp add: f)
next
  fix e
  assume h: "method_req request = ''tools/call''
        \<and> param request ''name'' JNull = JStr ''update_task''
        \<and> py_pop (param request ''arguments'' (JObj [])) ''task_id'' = Inl e"
  then have "fst (handle_method rm request st) = Inl e"
    by (intro update_task_argument_fault) simp_all
  note f = endpoint_on_fault[OF this]
  show "error_resp (fst (mcp_endpoint rm request st)) = Some (rpc_error e)" by (simp add: f)
  show "result_resp (fst (mcp_endpoint rm request st)) = None" by (simp add: f)
qed

theorem faults_become_rpc_errors_witness:
  "fst (handle_method silent_remote ping_request st0) = Inl (ValueError ''Unknown method: ping'')
   \<and> fst (mcp_endpoint silent_remote ping_request st0) =
       \<lparr>jsonrpc_resp = ''2.0'', id_resp = Some 7, result_resp = None,
        error_resp = Some (JObj [(''code'', JInt (- 32603)), (''message'', JStr ''Unknown method: ping'')])\<rparr>
   \<and> method_req unknown_tool_request = ''tools/call''
   \<and> param unknown_tool_request ''name'' JNull \<notin> JStr ` set (map name get_tools_list)
   \<and> error_resp (fst (mcp_endpoint silent_remote unknown_tool_request st0)) =
       Some (JObj [(''code'', JInt (- 32603)), (''message'', JStr ''Unknown tool: delete_workspace'')])
   \<and> (GET (base_url @ ''/task/T1''), Inl (RequestException ''404 Client Error: Not Found''))
       \<in> set (since st0 (snd (mcp_endpoint failing_remote get_task_request st0)))
   \<and> error_resp (fst (mcp_endpoint failing_remote get_task_request st0)) =
       Some (JObj [(''code'', JInt (- 32603)), (''message'', JStr ''404 Client Error: Not Found'')])
   \<and> getitem_key (param create_task_request ''arguments'' (JObj [])) ''list_id''
       = Inl (KeyError (JStr ''list_id''))
   \<and> error_resp (fst (mcp_endpoint silent_remote create_task_request st0)) =
       Some (JObj [(''code'', JInt (- 32603)), (''message'', JStr ([CHR 0x27] @ ''list_id'' @ [CHR 0x27]))])
   \<and> py_pop (param update_task_request ''arguments'' (JObj [])) ''task_id''
       = Inl (TypeError ([CHR 0x27] @ ''str'' @ [CHR 0x27] @ '' object cannot be interpreted as an integer''))
   \<and> error_resp (fst (mcp_endpoint silent_remote update_task_request st0)) =
       Some (JObj [(''code'', JInt (- 32603)),
         (''message'', JStr ([CHR 0x27] @ ''str'' @ [CHR 0x27] @ '' object cannot be interpreted as an integer''))])"
  using faults_become_rpc_errors[of silent_remote ping_request st0]
    faults_become_rpc_errors[of silent_remote unknown_tool_request st0]
    faults_become_rpc_errors[of failing_remote get_task_request st0]
    faults_become_rpc_errors[of silent_remote create_task_request st0]
    faults_become_rpc_errors[of silent_remote update_task_request st0]
  by (simp add: run_simps get_task_def create_task_def update_task_def failing_remote_def
      silent_remote_def ping_request_def unknown_tool_request_def get_task_request_def
      create_task_request_def update_task_request_def repr_str_def repr_char_def printable_def)

text \<open>
  Claim C8. \<^verbatim>\<open>initialize\<close> never fails and always answers with the same fixed
  document of protocol version, capabilities and server identity: whatever the remote
  service, the request's other fields and the state of the server, the result is
  \<open>initialize_result\<close>, there is no error, and the state is left as it was. Two
  consecutive calls therefore return identical result payloads.
\<close>

theorem initialize_fixed:
  assumes "method_req r1 = ''initialize''" and "method_req r2 = ''initialize''"
  shows "mcp_endpoint rm r1 st =
           (\<lparr>jsonrpc_resp = ''2.0'', id_resp = id_req r1,
             result_resp = Some initialize_result, error_resp = None\<rparr>, st)
       \<and> result_resp (fst (mcp_endpoint rm' r2 (snd (mcp_endpoint rm r1 st))))
           = result_resp (fst (mcp_endpoint rm r1 st))
       \<and> result_resp (fst (mcp_endpoint rm' r2 st')) = Some initialize_result
       \<and> error_resp (fst (mcp_endpoint rm' r2 st')) = None"
  using assms by (simp add: mcp_endpoint_def handle_method_def ret_def)

theorem initialize_fixed_witness:
  "method_req initialize_request = ''initialize''
   \<and> mcp_endpoint failing_remote initialize_request st0 =
        (\<lparr>jsonrpc_resp = ''2.0'', id_resp = Some 0,
          result_resp = Some (JObj [
            (''protocolVersion'', JStr ''2024-11-05''),
            (''capabilities'', JObj [(''tools'', JObj [])]),
            (''serverInfo'', JObj [(''name'', JStr ''clickup-mcp-server''), (''version'', JStr ''1.0.0'')])]),
          error_resp = None\<rparr>, st0)
   \<and> result_resp (fst (mcp_endpoint silent_remote initialize_request
         (snd (mcp_endpoint failing_remote initialize_request st0))))
       = result_resp (fst (mcp_endpoint failing_remote initialize_request st0))"
  using initialize_fixed[of initialize_request initialize_request failing_remote st0 silent_remote st0]
  by (simp add: initialize_request_def initialize_result_def)

lemma tools_list_answer:
  assumes "method_req request = ''tools/list''"
  shows "mcp_endpoint rm request st =
           (\<lparr>jsonrpc_resp = ''2.0'', id_resp = id_req request,
             result_resp = Some tools_document, error_resp = None\<rparr>, st)"
  using assms
  by (simp add: mcp_endpoint_def handle_method_def ret_def tools_document_def get_tools_list_def tool_dict_def)

lemma tools_document_names:
  "listed_names \<lparr>jsonrpc_resp = v, id_resp = i, result_resp = Some tools_document, error_resp = None\<rparr>
     = [Inr (JStr ''search_workspace''), Inr (JStr ''get_workspace_hierarchy''),
           Inr (JStr ''get_workspace_tasks''), Inr (JStr ''create_task''), Inr (JStr ''get_task''),
           Inr (JStr ''update_task''), Inr (JStr ''create_task_comment''),
           Inr (JStr ''get_task_comments''), Inr (JStr ''get_workspace_members''),
           Inr (JStr ''create_list'')]"
  by (simp add: listed_names_def listed_tools_def tools_document_def getitem_key_def)

lemma tools_document_fields:
  "map (\<lambda>d. (getitem_key d ''name'', getitem_key d ''description'', getitem_key d ''inputSchema'', d))
       (listed_tools \<lparr>jsonrpc_resp = v, id_resp = i, result_resp = Some tools_document, error_resp = None\<rparr>)
     = map (\<lambda>t. (Inr (JStr (name t)), Inr (JStr (description t)), Inr (inputSchema t),
                   JObj [(''name'', JStr (name t)), (''description'', JStr (description t)),
                         (''inputSchema'', inputSchema t)])) get_tools_list"
  by (simp add: listed_tools_def tools_document_def getitem_key_def get_tools_list_def)

text \<open>
  Claim C9. Every \<^verbatim>\<open>tools/list\<close> call returns the same document, \<open>tools_document\<close>,
  without an error and without any effect on the state of the server, whatever the
  remote service, the state and the other fields of the request. The descriptors in it are
  the ten of the catalog \<^verbatim>\<open>get_tools_list\<close>, in its order: each is an object of exactly
  the three members \<^verbatim>\<open>name\<close>, \<^verbatim>\<open>description\<close> and \<^verbatim>\<open>inputSchema\<close> of its
  catalog entry. The names read from the returned descriptors are the ten listed below,
  pairwise distinct, so the sequence is not empty. They are every name the executor
  dispatches on: a tool name that is not among the returned names is refused by
  \<^verbatim>\<open>execute_tool\<close> as unknown, without any effect.
\<close>

theorem catalog_fixed_and_complete:
  "(method_req request = ''tools/list'' \<longrightarrow>
      snd (mcp_endpoint rm request st) = st
      \<and> error_resp (fst (mcp_endpoint rm request st)) = None
      \<and> result_resp (fst (mcp_endpoint rm request st)) = Some tools_document
      \<and> (method_req request' = ''tools/list'' \<longrightarrow>
           result_resp (fst (mcp_endpoint rm' request' st')) = result_resp (fst (mcp_endpoint rm request st)))
      \<and> listed_names (fst (mcp_endpoint rm request st)) = [Inr (JStr ''search_workspace''), Inr (JStr ''get_workspace_hierarchy''),
           Inr (JStr ''get_workspace_tasks''), Inr (JStr ''create_task''), Inr (JStr ''get_task''),
           Inr (JStr ''update_task''), Inr (JStr ''create_task_comment''),
           Inr (JStr ''get_task_comments''), Inr (JStr ''get_workspace_members''),
           Inr (JStr ''create_list'')]
      \<and> distinct (listed_names (fst (mcp_endpoint rm request st)))
      \<and> listed_tools (fst (mcp_endpoint rm request st)) \<noteq> []
      \<and> map (\<lambda>d. (getitem_key d ''name'', getitem_key d ''description'', getitem_key d ''inputSchema'', d))
             (listed_tools (fst (mcp_endpoint rm request st)))
         = map (\<lambda>t. (Inr (JStr (name t)), Inr (JStr (description t)), Inr (inputSchema t),
                       JObj [(''name'', JStr (name t)), (''description'', JStr (description t)),
                             (''inputSchema'', inputSchema t)])) get_tools_list
      \<and> (Inr tool_name \<notin> set (listed_names (fst (mcp_endpoint rm request st))) \<longrightarrow>
           execute_tool rm tool_name a st
             = (Inl (ValueError (''Unknown tool: '' @ py_str tool_name)), st)))
   \<and> get_tools_list \<noteq> []
   \<and> distinct (map name get_tools_list)
   \<and> map name get_tools_list =
       [''search_workspace'', ''get_workspace_hierarchy'', ''get_workspace_tasks'',
        ''create_task'', ''get_task'', ''update_task'', ''create_task_comment'',
        ''get_task_comments'', ''get_workspace_members'', ''create_list'']
   \<and> (tool_name \<notin> JStr ` set (map name get_tools_list) \<longrightarrow>
        execute_tool rm tool_name a st
          = (Inl (ValueError (''Unknown tool: '' @ py_str tool_name)), st))"
proof (intro conjI impI)
  show "get_tools_list \<noteq> []" by (simp add: get_tools_list_def)
  show "distinct (map name get_tools_list)" unfolding catalog_names by simp
  show "map name get_tools_list =
       [''search_workspace'', ''get_workspace_hierarchy'', ''get_workspace_tasks'',
        ''create_task'', ''get_task'', ''update_task'', ''create_task_comment'',
        ''get_task_comments'', ''get_workspace_members'', ''create_list'']"
    by (rule catalog_names)
next
  assume "tool_name \<notin> JStr ` set (map name get_tools_list)"
  then show "execute_tool rm tool_name a st
          = (Inl (ValueError (''Unknown tool: '' @ py_str tool_name)), st)"
    by (rule unknown_tool)
next
  assume m: "method_req request = ''tools/list''"
  note ans = tools_list_answer[OF m, of rm st]
  show "snd (mcp_endpoint rm request st) = st" by (simp add: ans)
  show "error_resp (fst (mcp_endpoint rm request st)) = None" by (simp add: ans)
  show "result_resp (fst (mcp_endpoint rm request st)) = Some tools_document" by (simp add: ans)
  show names: "listed_names (fst (mcp_endpoint rm request st)) = [Inr (JStr ''search_workspace''), Inr (JStr ''get_workspace_hierarchy''),
           Inr (JStr ''get_workspace_tasks''), Inr (JStr ''create_task''), Inr (JStr ''get_task''),
           Inr (JStr ''update_task''), Inr (JStr ''create_task_comment''),
           Inr (JStr ''get_task_comments''), Inr (JStr ''get_workspace_members''),
           Inr (JStr ''create_list'')]"
    unfolding ans fst_conv by (rule tools_document_names)
  show "distinct (listed_names (fst (mcp_endpoint rm request st)))"
    unfolding names by simp
  show "listed_tools (fst (mcp_endpoint rm request st)) \<noteq> []"
    using names unfolding listed_names_def by auto
  show "map (\<lambda>d. (getitem_key d ''name'', getitem_key d ''description'', getitem_key d ''inputSchema'', d))
             (listed_tools (fst (mcp_endpoint rm request st)))
         = map (\<lambda>t. (Inr (JStr (name t)), Inr (JStr (description t)), Inr (inputSchema t),
                       JObj [(''name'', JStr (name t)), (''description'', JStr (description t)),
                             (''inputSchema'', inputSchema t)])) get_tools_list"
    unfolding ans fst_conv by (rule tools_document_fields)
  {
    assume "method_req request' = ''tools/list''"
    then show "result_resp (fst (mcp_endpoint rm' request' st')) = result_resp (fst (mcp_endpoint rm request st))"
      by (simp add: ans tools_list_answer)
  }
  {
    assume "Inr tool_name \<notin> set (listed_names (fst (mcp_endpoint rm request st)))"
    then have "tool_name \<notin> JStr ` set (map name get_tools_list)"
      unfolding names catalog_names by auto
    then show "execute_tool rm tool_name a st
             = (Inl (ValueError (''Unknown tool: '' @ py_str tool_name)), st)"
      by (rule unknown_tool)
  }
qed

theorem catalog_fixed_and_complete_witness:
  "method_req tools_list_request = ''tools/list''
   \<and> mcp_endpoint failing_remote tools_list_request st0 =
        (\<lparr>jsonrpc_resp = ''2.0'', id_resp = Some 1,
          result_resp = Some (JObj [(''tools'', JList [
            JObj [
              (''name'', JStr ''search_workspace''),
              (''description'', JStr ''Search for tasks, lists, folders, and docs across the workspace''),
              (''inputSchema'', JObj [
                (''type'', JStr ''object''),
                (''properties'', JObj [
                  (''query'', JObj [(''type'', JStr ''string''), (''description'', JStr ''Search query'')])]),
                (''required'', JList [JStr ''query''])])],
            JObj [
              (''name'', JStr ''get_workspace_hierarchy''),
              (''description'', JStr ''Get the complete workspace structure with spaces, folders, and lists''),
              (''inputSchema'', JObj [(''type'', JStr ''object''), (''properties'', JObj [])])],
            JObj [
              (''name'', JStr ''get_workspace_tasks''),
              (''description'', JStr ''Get all tasks in the workspace with optional filters''),
              (''inputSchema'', JObj [
                (''type'', JStr ''object''),
                (''properties'', JObj [
                  (''space_id'', JObj [
                    (''type'', JStr ''string''),
                    (''description'', JStr ''Filter by space ID'')]),
                  (''list_id'', JObj [(''type'', JStr ''string''), (''description'', JStr ''Filter by list ID'')]),
                  (''assignee'', JObj [
                    (''type'', JStr ''string''),
                    (''description'', JStr ''Filter by assignee ID'')])])])],
            JObj [
              (''name'', JStr ''create_task''),
              (''description'', JStr ''Create a new task in a list''),
              (''inputSchema'', JObj [
                (''type'', JStr ''object''),
                (''properties'', JObj [
                  (''list_id'', JObj [
                    (''type'', JStr ''string''),
                    (''description'', JStr ''List ID where task will be created'')]),
                  (''name'', JObj [(''type'', JStr ''string''), (''description'', JStr ''Task name'')]),
                  (''description'', JObj [(''type'', JStr ''string''), (''description'', JStr ''Task description'')]),
                  (''status'', JObj [
                    (''type'', JStr ''string''),
                    (''description'', JStr (''Task status (e.g., '' @ [CHR 0x27] @ ''to do'' @ [CHR 0x27] @ '', '' @ [CHR 0x27] @ ''in progress'' @ [CHR 0x27] @ '')''))]),
                  (''priority'', JObj [
                    (''type'', JStr ''integer''),
                    (''description'', JStr ''Priority level (1-4)'')])]),
                (''required'', JList [JStr ''list_id'', JStr ''name''])])],
            JObj [
              (''name'', JStr ''get_task''),
              (''description'', JStr ''Get detailed information about a specific task''),
              (''inputSchema'', JObj [
                (''type'', JStr ''object''),
                (''properties'', JObj [
                  (''task_id'', JObj [(''type'', JStr ''string''), (''description'', JStr ''Task ID'')])]),
                (''required'', JList [JStr ''task_id''])])],
            JObj [
              (''name'', JStr ''update_task''),
              (''description'', JStr ''Update an existing task''),
              (''inputSchema'', JObj [
                (''type'', JStr ''object''),
                (''properties'', JObj [
                  (''task_id'', JObj [(''type'', JStr ''string''), (''description'', JStr ''Task ID'')]),
                  (''name'', JObj [(''type'', JStr ''string''), (''description'', JStr ''New task name'')]),
                  (''description'', JObj [(''type'', JStr ''string''), (''description'', JStr ''New description'')]),
                  (''status'', JObj [(''type'', JStr ''string''), (''description'', JStr ''New status'')])]),
                (''required'', JList [JStr ''task_id''])])],
            JObj [
              (''name'', JStr ''create_task_comment''),
              (''description'', JStr ''Add a comment to a task''),
              (''inputSchema'', JObj [
                (''type'', JStr ''object''),
                (''properties'', JObj [
                  (''task_id'', JObj [(''type'', JStr ''string''), (''description'', JStr ''Task ID'')]),
                  (''comment_text'', JObj [(''type'', JStr ''string''), (''description'', JStr ''Comment text'')])]),
                (''required'', JList [JStr ''task_id'', JStr ''comment_text''])])],
            JObj [
              (''name'', JStr ''get_task_comments''),
              (''description'', JStr ''Get all comments from a task''),
              (''inputSchema'', JObj [
                (''type'', JStr ''object''),
                (''properties'', JObj [
                  (''task_id'', JObj [(''type'', JStr ''string''), (''description'', JStr ''Task ID'')])]),
                (''required'', JList [JStr ''task_id''])])],
            JObj [
              (''name'', JStr ''get_workspace_members''),
              (''description'', JStr ''Get all members in the workspace''),
              (''inputSchema'', JObj [(''type'', JStr ''object''), (''properties'', JObj [])])],
            JObj [
              (''name'', JStr ''create_list''),
              (''description'', JStr ''Create a new list in a space''),
              (''inputSchema'', JObj [
                (''type'', JStr ''object''),
                (''properties'', JObj [
                  (''space_id'', JObj [(''type'', JStr ''string''), (''description'', JStr ''Space ID'')]),
                  (''name'', JObj [(''type'', JStr ''string''), (''description'', JStr ''List name'')])]),
                (''required'', JList [JStr ''space_id'', JStr ''name''])])]])]),
          error_resp = None\<rparr>, st0)
   \<and> listed_names (fst (mcp_endpoint failing_remote tools_list_request st0)) = [Inr (JStr ''search_workspace''), Inr (JStr ''get_workspace_hierarchy''),
           Inr (JStr ''get_workspace_tasks''), Inr (JStr ''create_task''), Inr (JStr ''get_task''),
           Inr (JStr ''update_task''), Inr (JStr ''create_task_comment''),
           Inr (JStr ''get_task_comments''), Inr (JStr ''get_workspace_members''),
           Inr (JStr ''create_list'')]
   \<and> Inr (JStr ''delete_workspace'') \<notin> set (listed_names (fst (mcp_endpoint failing_remote tools_list_request st0)))
   \<and> execute_tool failing_remote (JStr ''delete_workspace'') 0 st0
       = (Inl (ValueError ''Unknown tool: delete_workspace''), st0)"
proof -
  have m: "method_req tools_list_request = ''tools/list''"
    by (simp add: tools_list_request_def)
  have i: "id_req tools_list_request = Some 1"
    by (simp add: tools_list_request_def)
  note c = catalog_fixed_and_complete[of tools_list_request failing_remote st0 tools_list_request
      failing_remote st0 "JStr ''delete_workspace''" 0]
  have r: "mcp_endpoint failing_remote tools_list_request st0 =
        (\<lparr>jsonrpc_resp = ''2.0'', id_resp = Some 1,
          result_resp = Some tools_document, error_resp = None\<rparr>, st0)"
    using c m i by (simp add: mcp_endpoint_def split: prod.splits sum.splits)
  from c m have n: "listed_names (fst (mcp_endpoint failing_remote tools_list_request st0)) = [Inr (JStr ''search_workspace''), Inr (JStr ''get_workspace_hierarchy''),
           Inr (JStr ''get_workspace_tasks''), Inr (JStr ''create_task''), Inr (JStr ''get_task''),
           Inr (JStr ''update_task''), Inr (JStr ''create_task_comment''),
           Inr (JStr ''get_task_comments''), Inr (JStr ''get_workspace_members''),
           Inr (JStr ''create_list'')]"
    by blast
  have x: "Inr (JStr ''delete_workspace'') \<notin> set (listed_names (fst (mcp_endpoint failing_remote tools_list_request st0)))"
    unfolding n by simp
  from c m x have u: "execute_tool failing_remote (JStr ''delete_workspace'') 0 st0
       = (Inl (ValueError (''Unknown tool: '' @ py_str (JStr ''delete_workspace''))), st0)"
    by blast
  show ?thesis
    using m r n x u by (simp add: tools_document_def py_str_def)
qed

text \<open>
  Claim C5. For an argument object with \<^verbatim>\<open>list_id\<close> and \<^verbatim>\<open>name\<close>,
  \<^verbatim>\<open>create_task\<close> makes exactly one exchange with the remote service: a POST to
  \<open>list/{list_id}/task\<close>, and returns its answer. The body has the given name, the
  given description or \<open>""\<close> when there is none, the given status or \<open>"to do"\<close> when
  there is none, and a priority exactly when one was given.
\<close>

theorem create_task_one_post:
  assumes "heap st a = JObj kvs"
    and "map_of kvs ''list_id'' = Some list_id"
    and "map_of kvs ''name'' = Some nm"
  shows "create_task rm a st =
           (rm (sent st) (POST (base_url @ ''/list/'' @ py_str list_id @ ''/task'') (expected_task_data kvs nm)),
            st\<lparr>sent := sent st @
              [(POST (base_url @ ''/list/'' @ py_str list_id @ ''/task'') (expected_task_data kvs nm),
                rm (sent st) (POST (base_url @ ''/list/'' @ py_str list_id @ ''/task'') (expected_task_data kvs nm)))]\<rparr>)"
  using assms
  by (simp add: create_task_def mbind_def deref_def lift_def ret_def getitem_key_def py_get_def
      py_contains_def api_post_def http_def Let_def expected_task_data_def split: option.splits)

theorem create_task_one_post_witness:
  "heap (st_args (JObj [(''list_id'', JStr ''L1''), (''name'', JStr ''Test'')])) 0
      = JObj [(''list_id'', JStr ''L1''), (''name'', JStr ''Test'')]
   \<and> map_of [(''list_id'', JStr ''L1''), (''name'', JStr ''Test'')] ''list_id'' = Some (JStr ''L1'')
   \<and> map_of [(''list_id'', JStr ''L1''), (''name'', JStr ''Test'')] ''name'' = Some (JStr ''Test'')
   \<and> since (st_args (JObj [(''list_id'', JStr ''L1''), (''name'', JStr ''Test'')]))
        (snd (create_task silent_remote 0 (st_args (JObj [(''list_id'', JStr ''L1''), (''name'', JStr ''Test'')]))))
      = [(POST ''https://api.clickup.com/api/v2/list/L1/task''
            (JObj [(''name'', JStr ''Test''), (''description'', JStr []), (''status'', JStr ''to do'')]),
          Inr (JObj []))]"
  using create_task_one_post[of "st_args (JObj [(''list_id'', JStr ''L1''), (''name'', JStr ''Test'')])" 0
      "[(''list_id'', JStr ''L1''), (''name'', JStr ''Test'')]" "JStr ''L1''" "JStr ''Test''" silent_remote]
  by (simp add: st_args_def since_def expected_task_data_def base_url_def py_str_def silent_remote_def)

text \<open>
  Claim C6. For an argument object with \<^verbatim>\<open>task_id\<close>, \<^verbatim>\<open>update_task\<close> makes
  exactly one exchange with the remote service: a PUT to \<open>task/{task_id}\<close>, and returns
  its answer. The body is the argument object without the key \<^verbatim>\<open>task_id\<close>: it has
  no such key, and every other key has the value it had.
\<close>

theorem update_task_one_put:
  assumes "heap st a = JObj kvs"
    and "map_of kvs ''task_id'' = Some task_id"
  shows "update_task rm a st =
           (rm (sent st) (PUT (base_url @ ''/task/'' @ py_str task_id) (JObj (without_key ''task_id'' kvs))),
            st\<lparr>heap := (heap st)(a := JObj (without_key ''task_id'' kvs)),
               sent := sent st @
                 [(PUT (base_url @ ''/task/'' @ py_str task_id) (JObj (without_key ''task_id'' kvs)),
                   rm (sent st) (PUT (base_url @ ''/task/'' @ py_str task_id) (JObj (without_key ''task_id'' kvs))))]\<rparr>)
       \<and> map_of (without_key ''task_id'' kvs) ''task_id'' = None
       \<and> (\<forall>k. k \<noteq> ''task_id'' \<longrightarrow> map_of (without_key ''task_id'' kvs) k = map_of kvs k)"
proof (intro conjI allI impI)
  show "update_task rm a st =
           (rm (sent st) (PUT (base_url @ ''/task/'' @ py_str task_id) (JObj (without_key ''task_id'' kvs))),
            st\<lparr>heap := (heap st)(a := JObj (without_key ''task_id'' kvs)),
               sent := sent st @
                 [(PUT (base_url @ ''/task/'' @ py_str task_id) (JObj (without_key ''task_id'' kvs)),
                   rm (sent st) (PUT (base_url @ ''/task/'' @ py_str task_id) (JObj (without_key ''task_id'' kvs))))]\<rparr>)"
    using assms
    by (simp add: update_task_def mbind_def deref_def lift_def store_def py_pop_def api_put_def
        http_def Let_def without_key_def)
  show "map_of (without_key ''task_id'' kvs) ''task_id'' = None"
    by (induction kvs) (auto simp: without_key_def)
  fix k :: string assume "k \<noteq> ''task_id''"
  then show "map_of (without_key ''task_id'' kvs) k = map_of kvs k"
    by (induction kvs) (auto simp: without_key_def)
qed

theorem update_task_one_put_witness:
  "heap (st_args (JObj [(''task_id'', JStr ''T1''), (''name'', JStr ''New'')])) 0
      = JObj [(''task_id'', JStr ''T1''), (''name'', JStr ''New'')]
   \<and> map_of [(''task_id'', JStr ''T1''), (''name'', JStr ''New'')] ''task_id'' = Some (JStr ''T1'')
   \<and> since (st_args (JObj [(''task_id'', JStr ''T1''), (''name'', JStr ''New'')]))
        (snd (update_task silent_remote 0 (st_args (JObj [(''task_id'', JStr ''T1''), (''name'', JStr ''New'')]))))
      = [(PUT ''https://api.clickup.com/api/v2/task/T1'' (JObj [(''name'', JStr ''New'')]), Inr (JObj []))]
   \<and> ''name'' \<noteq> ''task_id''
   \<and> map_of (without_key ''task_id'' [(''task_id'', JStr ''T1''), (''name'', JStr ''New'')]) ''name''
      = Some (JStr ''New'')"
  using update_task_one_put[of "st_args (JObj [(''task_id'', JStr ''T1''), (''name'', JStr ''New'')])" 0
      "[(''task_id'', JStr ''T1''), (''name'', JStr ''New'')]" "JStr ''T1''" silent_remote]
  by (simp add: st_args_def since_def without_key_def base_url_def py_str_def silent_remote_def)

lemma without_absent_key:
  "map_of kvs k = None \<Longrightarrow> without_key k kvs = kvs"
  by (induction kvs) (auto simp: without_key_def split: if_splits)

lemma without_present_key:
  "map_of kvs k = Some v \<Longrightarrow> without_key k kvs \<noteq> kvs"
proof
  assume p: "map_of kvs k = Some v" and "without_key k kvs = kvs"
  then have "map_of (without_key k kvs) k = Some v" by simp
  moreover have "map_of (without_key k kvs) k = None"
    by (induction kvs) (auto simp: without_key_def)
  ultimately show False by simp
qed

text \<open>
  Claim C10. Executing \<^verbatim>\<open>update_task\<close> changes the caller's argument object in
  place: whether the remote call succeeds or fails, the object at the address passed in
  is afterwards the one it was without the key \<^verbatim>\<open>task_id\<close>, so it differs from
  what the caller passed whenever that key was there. No other object changes.
\<close>

theorem update_task_mutates_arguments:
  assumes "heap st a = JObj kvs"
  shows "heap (snd (execute_tool rm (JStr ''update_task'') a st)) a = JObj (without_key ''task_id'' kvs)
       \<and> map_of (without_key ''task_id'' kvs) ''task_id'' = None
       \<and> (\<forall>v. map_of kvs ''task_id'' = Some v \<longrightarrow>
            heap (snd (execute_tool rm (JStr ''update_task'') a st)) a \<noteq> heap st a)
       \<and> (\<forall>b. b \<noteq> a \<longrightarrow> heap (snd (execute_tool rm (JStr ''update_task'') a st)) b = heap st b)"
proof (intro conjI allI impI)
  show h: "heap (snd (execute_tool rm (JStr ''update_task'') a st)) a = JObj (without_key ''task_id'' kvs)"
  proof (cases "map_of kvs ''task_id''")
    case None
    then show ?thesis using assms
      by (simp add: execute_tool_def update_task_def mbind_def deref_def lift_def py_pop_def
          without_absent_key)
  next
    case (Some v)
    then show ?thesis using assms
      by (simp add: execute_tool_def update_task_def mbind_def deref_def lift_def store_def
          py_pop_def api_put_def http_def Let_def without_key_def)
  qed
  show "map_of (without_key ''task_id'' kvs) ''task_id'' = None"
    by (induction kvs) (auto simp: without_key_def)
  fix v assume "map_of kvs ''task_id'' = Some v"
  then have "without_key ''task_id'' kvs \<noteq> kvs" by (rule without_present_key)
  then show "heap (snd (execute_tool rm (JStr ''update_task'') a st)) a \<noteq> heap st a"
    using h assms by simp
next
  fix b assume "b \<noteq> a"
  then show "heap (snd (execute_tool rm (JStr ''update_task'') a st)) b = heap st b"
    using assms
    by (cases "map_of kvs ''task_id''")
       (simp_all add: execute_tool_def update_task_def mbind_def deref_def lift_def store_def
          py_pop_def api_put_def http_def Let_def)
qed

theorem update_task_mutates_arguments_witness:
  "heap (st_args (JObj [(''task_id'', JStr ''T1''), (''name'', JStr ''New'')])) 0
      = JObj [(''task_id'', JStr ''T1''), (''name'', JStr ''New'')]
   \<and> heap (snd (execute_tool failing_remote (JStr ''update_task'') 0
        (st_args (JObj [(''task_id'', JStr ''T1''), (''name'', JStr ''New'')])))) 0
      = JObj [(''name'', JStr ''New'')]
   \<and> fst (execute_tool failing_remote (JStr ''update_task'') 0
        (st_args (JObj [(''task_id'', JStr ''T1''), (''name'', JStr ''New'')])))
      = Inl (RequestException ''404 Client Error: Not Found'')
   \<and> map_of [(''task_id'', JStr ''T1''), (''name'', JStr ''New'')] ''task_id'' = Some (JStr ''T1'')
   \<and> heap (snd (execute_tool failing_remote (JStr ''update_task'') 0
        (st_args (JObj [(''task_id'', JStr ''T1''), (''name'', JStr ''New'')])))) 0
      \<noteq> heap (st_args (JObj [(''task_id'', JStr ''T1''), (''name'', JStr ''New'')])) 0
   \<and> (1::nat) \<noteq> 0
   \<and> heap (snd (execute_tool failing_remote (JStr ''update_task'') 0
        (st_args (JObj [(''task_id'', JStr ''T1''), (''name'', JStr ''New'')])))) 1
      = heap (st_args (JObj [(''task_id'', JStr ''T1''), (''name'', JStr ''New'')])) 1"
  using update_task_mutates_arguments[of "st_args (JObj [(''task_id'', JStr ''T1''), (''name'', JStr ''New'')])" 0
      "[(''task_id'', JStr ''T1''), (''name'', JStr ''New'')]" failing_remote]
  by (simp add: st_args_def without_key_def failing_remote_def execute_tool_def update_task_def
      mbind_def deref_def lift_def store_def py_pop_def api_put_def http_def Let_def)




subsection \<open>Searching the workspace\<close>

lemma starts_with_iff: "starts_with s p \<longleftrightarrow> (\<exists>r. s = p @ r)"
  by (induction s p rule: starts_with.induct) auto

lemma str_contains_iff: "str_contains hay needle \<longleftrightarrow> (\<exists>p s. hay = p @ needle @ s)"
proof (induction hay)
  case Nil
  show ?case by auto
next
  case (Cons c cs)
  show ?case
  proof
    assume "str_contains (c # cs) needle"
    then consider "starts_with (c # cs) needle" | "str_contains cs needle" by auto
    then show "\<exists>p s. c # cs = p @ needle @ s"
    proof cases
      case 1
      then obtain r where "c # cs = needle @ r" by (auto simp: starts_with_iff)
      then have "c # cs = [] @ needle @ r" by simp
      then show ?thesis by blast
    next
      case 2
      then obtain p s where "cs = p @ needle @ s" using Cons.IH by blast
      then have "c # cs = (c # p) @ needle @ s" by simp
      then show ?thesis by blast
    qed
  next
    assume "\<exists>p s. c # cs = p @ needle @ s"
    then obtain p s where e: "c # cs = p @ needle @ s" by blast
    show "str_contains (c # cs) needle"
    proof (cases p)
      case Nil
      then have "starts_with (c # cs) needle" using e by (auto simp: starts_with_iff)
      then show ?thesis by simp
    next
      case (Cons a p')
      then have "cs = p' @ needle @ s" using e by simp
      then have "str_contains cs needle" using Cons.IH by blast
      then show ?thesis by simp
    qed
  qed
qed


lemma fetched_nil [simp]:
  "fetched_tasks [] = []" "fetched_lists [] = []" "fetched_spaces [] = []"
  by (simp_all add: fetched_def fetched_tasks_def fetched_lists_def fetched_spaces_def)






































end
